theory Spec2Isabelle
  imports Complex_Main "HOL-Library.Word" "HOL-Library.AList"
begin

section \<open>Protocol types\<close>

text \<open>
  The enums of the client's type module. Their numeric values are the wire encoding:
  \<^verbatim>\<open>DataType { U8 = 0, U16 = 1, F32 = 2, MuLawU8 = 3 }\<close>,
  \<^verbatim>\<open>CompressionType { None = 0, LZ4 = 1, Zstd = 2 }\<close>,
  \<^verbatim>\<open>PlaneType { Inline = 0, Crossline = 1, TimeDepth = 2 }\<close>.
  \<open>CompressionType.None\<close> is written \<open>None_ct\<close>, since \<open>None\<close> is the constructor
  of \<open>option\<close>.
\<close>

datatype DataType = U8 | U16 | F32 | MuLawU8

datatype CompressionType = None_ct | LZ4 | Zstd

datatype PlaneType = Inline | Crossline | TimeDepth

text \<open>The cast of a wire byte to the enum, defined exactly on the enum's values.\<close>

definition DataType_of :: "nat \<Rightarrow> DataType option" where
  "DataType_of v =
     (if v = 0 then Some U8 else if v = 1 then Some U16
      else if v = 2 then Some F32 else if v = 3 then Some MuLawU8 else None)"

definition CompressionType_of :: "nat \<Rightarrow> CompressionType option" where
  "CompressionType_of v =
     (if v = 0 then Some None_ct else if v = 1 then Some LZ4
      else if v = 2 then Some Zstd else None)"

definition PlaneType_of :: "nat \<Rightarrow> PlaneType option" where
  "PlaneType_of v =
     (if v = 0 then Some Inline else if v = 1 then Some Crossline
      else if v = 2 then Some TimeDepth else None)"

type_synonym u8 = "8 word"

record TileHeader =
  msgType :: nat
  plane :: PlaneType
  tileW :: nat
  tileH :: nat
  tileX :: nat
  tileY :: nat
  sliceIndex :: nat
  dtype :: DataType
  compression :: CompressionType
  uncompressedBytes :: nat
  payloadBytes :: nat

record TileData =
  header :: TileHeader
  payload :: "u8 list"

section \<open>The tile frame parser (protocol/parseTileFrame.ts)\<close>

datatype ParseError =
    BUFFER_TOO_SHORT
  | INVALID_MESSAGE_TYPE
  | INVALID_PLANE_TYPE
  | INVALID_DATA_TYPE
  | INVALID_COMPRESSION_TYPE
  | INVALID_TILE_DIMENSIONS
  | INVALID_PAYLOAD_SIZE
  | PAYLOAD_SIZE_MISMATCH
  | UNCOMPRESSED_SIZE_MISMATCH
  | CORRUPTED_HEADER
  | ENDIANNESS_MISMATCH

text \<open>
  \<open>ParseResult\<close> as the source declares it; the diagnostic string \<open>errorDetails\<close>
  is left out.
\<close>

record ParseResult =
  success :: bool
  data :: "TileData option"
  error :: "ParseError option"
  droppedBytes :: "nat option"

definition TILE_HEADER_SIZE :: nat where
  "TILE_HEADER_SIZE = 24"

definition EXPECTED_MSG_TYPE :: nat where
  "EXPECTED_MSG_TYPE = 1"

definition maxTileWidth :: nat where "maxTileWidth = 2048"
definition maxTileHeight :: nat where "maxTileHeight = 2048"
definition maxCoordinate :: nat where "maxCoordinate = 1000000"
definition maxSliceIndex :: nat where "maxSliceIndex = 100000"
definition maxPixelsPerTile :: nat where "maxPixelsPerTile = 4 * 1024 * 1024"
definition maxPayloadSize :: nat where "maxPayloadSize = 16 * 1024 * 1024"

subsection \<open>DataView and typed-array accessors\<close>

text \<open>
  An \<open>ArrayBuffer\<close> is a list of bytes. The accessors of \<open>DataView\<close> throw a
  \<open>RangeError\<close> when the read does not lie inside the buffer; the exception is the
  \<open>Inl\<close> branch. The last argument of the wide reads is the \<open>littleEndian\<close> flag.
\<close>

datatype exn = RangeError

definition getUint8 :: "u8 list \<Rightarrow> nat \<Rightarrow> exn + nat" where
  "getUint8 view byteOffset =
     (if byteOffset + 1 \<le> length view then Inr (unat (view ! byteOffset))
      else Inl RangeError)"

definition getUint16 :: "u8 list \<Rightarrow> nat \<Rightarrow> bool \<Rightarrow> exn + nat" where
  "getUint16 view byteOffset littleEndian =
     (if byteOffset + 2 \<le> length view then
        (let b0 = unat (view ! byteOffset); b1 = unat (view ! (byteOffset + 1))
         in Inr (if littleEndian then b0 + 256 * b1 else b1 + 256 * b0))
      else Inl RangeError)"

definition getUint32 :: "u8 list \<Rightarrow> nat \<Rightarrow> bool \<Rightarrow> exn + nat" where
  "getUint32 view byteOffset littleEndian =
     (if byteOffset + 4 \<le> length view then
        (let b0 = unat (view ! byteOffset); b1 = unat (view ! (byteOffset + 1));
             b2 = unat (view ! (byteOffset + 2)); b3 = unat (view ! (byteOffset + 3))
         in Inr (if littleEndian then b0 + 256 * b1 + 65536 * b2 + 16777216 * b3
                 else b3 + 256 * b2 + 65536 * b1 + 16777216 * b0))
      else Inl RangeError)"

text \<open>\<^verbatim>\<open>new Uint8Array(buffer, byteOffset, length)\<close>: a view of the bytes, or a RangeError.\<close>

definition Uint8Array_of :: "u8 list \<Rightarrow> nat \<Rightarrow> nat \<Rightarrow> exn + u8 list" where
  "Uint8Array_of buffer byteOffset len =
     (if byteOffset + len \<le> length buffer then Inr (take len (drop byteOffset buffer))
      else Inl RangeError)"

subsection \<open>Header validation\<close>

definition isValidPlaneType :: "nat \<Rightarrow> bool" where
  "isValidPlaneType v = (0 \<le> v \<and> v \<le> 2 \<and> PlaneType_of v \<noteq> None)"

definition isValidDataType :: "nat \<Rightarrow> bool" where
  "isValidDataType v = (DataType_of v \<noteq> None)"

definition isValidCompressionType :: "nat \<Rightarrow> bool" where
  "isValidCompressionType v = (CompressionType_of v \<noteq> None)"

fun getBytesPerSample :: "DataType \<Rightarrow> nat" where
  "getBytesPerSample U8 = 1"
| "getBytesPerSample MuLawU8 = 1"
| "getBytesPerSample U16 = 2"
| "getBytesPerSample F32 = 4"

text \<open>
  The body of the \<open>try\<close> block of \<open>parseHeader\<close>. The running \<open>offset\<close> is threaded as
  in the source (\<open>offset++\<close> after the one-byte reads, \<open>offset += 4\<close>, \<open>+= 12\<close>,
  \<open>+= 8\<close> after the groups). The outer \<open>Inl\<close> is a thrown exception; the inner sum is
  the returned object (\<open>Inl\<close> the error kind, \<open>Inr\<close> the header). \<open>throws m f\<close>
  continues with the value read, or propagates the exception to the \<open>catch\<close>.
\<close>

definition throws :: "exn + 'a \<Rightarrow> ('a \<Rightarrow> exn + 'b) \<Rightarrow> exn + 'b" where
  "throws m f = (case m of Inl e \<Rightarrow> Inl e | Inr x \<Rightarrow> f x)"

definition parseHeader_try :: "u8 list \<Rightarrow> exn + (ParseError + TileHeader)" where
  "parseHeader_try view =
     (let offset = (0::nat) in
      throws (getUint8 view offset) (\<lambda>msgType'.
      let offset = offset + 1 in
      if msgType' \<noteq> EXPECTED_MSG_TYPE then Inr (Inl INVALID_MESSAGE_TYPE) else
      throws (getUint8 view offset) (\<lambda>planeValue.
      let offset = offset + 1 in
      if \<not> isValidPlaneType planeValue then Inr (Inl INVALID_PLANE_TYPE) else
      throws (getUint16 view offset True) (\<lambda>tileW'.
      throws (getUint16 view (offset + 2) True) (\<lambda>tileH'.
      let offset = offset + 4 in
      if tileW' = 0 \<or> tileH' = 0 \<or> tileW' > maxTileWidth \<or> tileH' > maxTileHeight
      then Inr (Inl INVALID_TILE_DIMENSIONS) else
      let pixelCount = tileW' * tileH' in
      if pixelCount > maxPixelsPerTile then Inr (Inl INVALID_TILE_DIMENSIONS) else
      throws (getUint32 view offset True) (\<lambda>tileX'.
      throws (getUint32 view (offset + 4) True) (\<lambda>tileY'.
      throws (getUint32 view (offset + 8) True) (\<lambda>sliceIndex'.
      let offset = offset + 12 in
      if tileX' > maxCoordinate \<or> tileY' > maxCoordinate \<or> sliceIndex' > maxSliceIndex
      then Inr (Inl INVALID_TILE_DIMENSIONS) else
      throws (getUint8 view offset) (\<lambda>dtype'.
      let offset = offset + 1 in
      throws (getUint8 view offset) (\<lambda>compression'.
      let offset = offset + 1 in
      if \<not> isValidDataType dtype' then Inr (Inl INVALID_DATA_TYPE) else
      if \<not> isValidCompressionType compression' then Inr (Inl INVALID_COMPRESSION_TYPE) else
      throws (getUint32 view offset True) (\<lambda>uncompressedBytes'.
      throws (getUint32 view (offset + 4) True) (\<lambda>payloadBytes'.
      if payloadBytes' > maxPayloadSize then Inr (Inl INVALID_PAYLOAD_SIZE) else
      if CompressionType_of compression' = Some None_ct \<and> uncompressedBytes' \<noteq> payloadBytes'
      then Inr (Inl UNCOMPRESSED_SIZE_MISMATCH) else
      let bytesPerSample = getBytesPerSample (the (DataType_of dtype'));
          expectedUncompressedSize = pixelCount * bytesPerSample in
      if uncompressedBytes' \<noteq> expectedUncompressedSize
      then Inr (Inl UNCOMPRESSED_SIZE_MISMATCH) else
      Inr (Inr \<lparr> msgType = msgType', plane = the (PlaneType_of planeValue),
                 tileW = tileW', tileH = tileH', tileX = tileX', tileY = tileY',
                 sliceIndex = sliceIndex', dtype = the (DataType_of dtype'),
                 compression = the (CompressionType_of compression'),
                 uncompressedBytes = uncompressedBytes', payloadBytes = payloadBytes' \<rparr>)
      ))))))))))))"

text \<open>\<open>parseHeader\<close>: the \<open>catch\<close> turns any exception into \<open>CORRUPTED_HEADER\<close>.\<close>

definition parseHeader :: "u8 list \<Rightarrow> ParseError + TileHeader" where
  "parseHeader view =
     (case parseHeader_try view of Inl e \<Rightarrow> Inl CORRUPTED_HEADER | Inr r \<Rightarrow> r)"

definition validatePayload :: "u8 list \<Rightarrow> TileHeader \<Rightarrow> ParseError option" where
  "validatePayload pl h =
     (if length pl \<noteq> payloadBytes h then Some PAYLOAD_SIZE_MISMATCH
      else if compression h \<noteq> None_ct \<and> length pl > uncompressedBytes h
      then Some INVALID_PAYLOAD_SIZE
      else None)"

subsection \<open>The parser and its counters\<close>

record TileFrameParser =
  frameCount :: nat
  droppedFrames :: nat
  lastError :: "ParseError option"

definition new_TileFrameParser :: TileFrameParser where
  "new_TileFrameParser = \<lparr> frameCount = 0, droppedFrames = 0, lastError = None \<rparr>"

definition recordDrop :: "ParseError \<Rightarrow> TileFrameParser \<Rightarrow> TileFrameParser" where
  "recordDrop e p = p \<lparr> droppedFrames := droppedFrames p + 1, lastError := Some e \<rparr>"

definition failure :: "ParseError \<Rightarrow> u8 list \<Rightarrow> ParseResult" where
  "failure e buffer =
     \<lparr> success = False, data = None, error = Some e, droppedBytes = Some (length buffer) \<rparr>"

text \<open>
  The body of the \<open>try\<close> block of \<open>parse\<close>, entered after \<open>frameCount++\<close>. A thrown
  exception carries the parser state at the throw.
\<close>

definition parse_try ::
  "TileFrameParser \<Rightarrow> u8 list \<Rightarrow> (exn \<times> TileFrameParser) + (ParseResult \<times> TileFrameParser)" where
  "parse_try p buffer =
     (if length buffer < TILE_HEADER_SIZE
      then Inr (failure BUFFER_TOO_SHORT buffer, recordDrop BUFFER_TOO_SHORT p)
      else
        case parseHeader buffer of
          Inl e \<Rightarrow> Inr (failure e buffer, recordDrop e p)
        | Inr h \<Rightarrow>
            let expectedTotalSize = TILE_HEADER_SIZE + payloadBytes h in
            if length buffer \<noteq> expectedTotalSize
            then Inr (failure PAYLOAD_SIZE_MISMATCH buffer, recordDrop PAYLOAD_SIZE_MISMATCH p)
            else
              (case Uint8Array_of buffer TILE_HEADER_SIZE (payloadBytes h) of
                 Inl x \<Rightarrow> Inl (x, p)
               | Inr pl \<Rightarrow>
                   (case validatePayload pl h of
                      Some e \<Rightarrow> Inr (failure e buffer, recordDrop e p)
                    | None \<Rightarrow>
                        Inr (\<lparr> success = True,
                               data = Some \<lparr> header = h, payload = pl \<rparr>,
                               error = None, droppedBytes = None \<rparr>, p))))"

definition parse :: "TileFrameParser \<Rightarrow> u8 list \<Rightarrow> ParseResult \<times> TileFrameParser" where
  "parse p buffer =
     (let p1 = p \<lparr> frameCount := frameCount p + 1 \<rparr> in
      case parse_try p1 buffer of
        Inr r \<Rightarrow> r
      | Inl (x, p2) \<Rightarrow> (failure CORRUPTED_HEADER buffer, recordDrop CORRUPTED_HEADER p2))"

record ParserStats =
  totalFrames :: nat
  stats_droppedFrames :: nat
  successRate :: real
  stats_lastError :: "ParseError option"

definition getStats :: "TileFrameParser \<Rightarrow> ParserStats" where
  "getStats p =
     \<lparr> totalFrames = frameCount p,
       stats_droppedFrames = droppedFrames p,
       successRate =
         (if frameCount p > 0
          then (real (frameCount p) - real (droppedFrames p)) / real (frameCount p)
          else 1),
       stats_lastError = lastError p \<rparr>"

definition resetStats :: "TileFrameParser \<Rightarrow> TileFrameParser" where
  "resetStats p = p \<lparr> frameCount := 0, droppedFrames := 0, lastError := None \<rparr>"

definition isValidTileFrame :: "u8 list \<Rightarrow> bool" where
  "isValidTileFrame buffer =
     (if length buffer < TILE_HEADER_SIZE then False
      else case getUint8 buffer 0 of Inl e \<Rightarrow> False | Inr m \<Rightarrow> m = EXPECTED_MSG_TYPE)"

subsection \<open>The decoders built on the accessors (protocol/index.ts and its earlier form)\<close>

text \<open>
  \<open>TileDecoder.decode\<close> of protocol/index.ts runs the shared parser and hands out
  the tile or \<open>null\<close>.
\<close>

definition TileDecoder_decode ::
  "TileFrameParser \<Rightarrow> u8 list \<Rightarrow> TileData option \<times> TileFrameParser" where
  "TileDecoder_decode p buffer =
     (let result = parse p buffer in
      if \<not> success (fst result) then (None, snd result)
      else (data (fst result), snd result))"

text \<open>
  The other \<open>TileDecoder.decode\<close> of the repository reads the header fields itself,
  without validating them, so its header keeps the raw numbers. It has no \<open>try\<close>:
  an exception of a read reaches the caller (\<open>Inl\<close>).
\<close>

record RawTileHeader =
  raw_msgType :: nat
  raw_plane :: nat
  raw_tileW :: nat
  raw_tileH :: nat
  raw_tileX :: nat
  raw_tileY :: nat
  raw_sliceIndex :: nat
  raw_dtype :: nat
  raw_compression :: nat
  raw_uncompressedBytes :: nat
  raw_payloadBytes :: nat

record RawTileData =
  raw_header :: RawTileHeader
  raw_payload :: "u8 list"

definition TileDecoder_decode_direct :: "u8 list \<Rightarrow> exn + RawTileData option" where
  "TileDecoder_decode_direct buffer =
     (if length buffer < 24 then Inr None
      else
        let offset = (0::nat) in
        throws (getUint8 buffer offset) (\<lambda>msgType'.
        let offset = offset + 1 in
        throws (getUint8 buffer offset) (\<lambda>plane'.
        let offset = offset + 1 in
        throws (getUint16 buffer offset True) (\<lambda>tileW'.
        throws (getUint16 buffer (offset + 2) True) (\<lambda>tileH'.
        throws (getUint32 buffer (offset + 4) True) (\<lambda>tileX'.
        throws (getUint32 buffer (offset + 8) True) (\<lambda>tileY'.
        throws (getUint32 buffer (offset + 12) True) (\<lambda>sliceIndex'.
        throws (getUint8 buffer (offset + 16)) (\<lambda>dtype'.
        throws (getUint8 buffer (offset + 17)) (\<lambda>compression'.
        throws (getUint32 buffer (offset + 18) True) (\<lambda>uncompressedBytes'.
        throws (getUint32 buffer (offset + 22) True) (\<lambda>payloadBytes'.
        let h = \<lparr> raw_msgType = msgType', raw_plane = plane', raw_tileW = tileW',
                    raw_tileH = tileH', raw_tileX = tileX', raw_tileY = tileY',
                    raw_sliceIndex = sliceIndex', raw_dtype = dtype',
                    raw_compression = compression',
                    raw_uncompressedBytes = uncompressedBytes',
                    raw_payloadBytes = payloadBytes' \<rparr>;
            offset = (24::nat) in
        if raw_msgType h \<noteq> 1 then Inr None
        else if length buffer < 24 + raw_payloadBytes h then Inr None
        else throws (Uint8Array_of buffer offset (raw_payloadBytes h)) (\<lambda>pl.
             Inr (Some \<lparr> raw_header = h, raw_payload = pl \<rparr>))))))))))))))"

text \<open>
  A run of the parser: the calls a client makes on it, \<open>parse\<close> on a frame that arrived
  or \<open>resetStats\<close>, in order.
\<close>

datatype parser_call = Parse "u8 list" | ResetStats

fun parser_run :: "TileFrameParser \<Rightarrow> parser_call list \<Rightarrow> TileFrameParser" where
  "parser_run p [] = p"
| "parser_run p (Parse b # cs) = parser_run (snd (parse p b)) cs"
| "parser_run p (ResetStats # cs) = parser_run (resetStats p) cs"

subsection \<open>Frames used as concrete inputs\<close>

text \<open>
  A 2 by 2 tile of U8 samples, uncompressed: the header bytes 0 to 23 as the source reads
  them, then the four bytes at 24 to 27.
\<close>

definition frame_2x2 :: "u8 list" where
  "frame_2x2 =
     [1, 0, 2, 0, 2, 0, 0, 0, 0, 0, 0, 0, 0, 0, 0, 0, 0, 0, 0, 0, 4, 0, 0, 0, 4, 0, 0, 0]"

text \<open>The first 24 bytes of the same frame, alone.\<close>

definition frame_24 :: "u8 list" where
  "frame_24 = [1, 0, 2, 0, 2, 0, 0, 0, 0, 0, 0, 0, 0, 0, 0, 0, 0, 0, 0, 0, 4, 0, 0, 0]"

text \<open>
  A 256 by 256 tile of U8 samples, uncompressed, that declares 65536 uncompressed bytes
  and 65535 payload bytes.
\<close>

definition header_256_short :: "u8 list" where
  "header_256_short =
     [1, 0, 0, 1, 0, 1, 0, 0, 0, 0, 0, 0, 0, 0, 0, 0, 0, 0, 0, 0, 0, 0, 1, 0, 255, 255, 0, 0]"

text \<open>The same tile declaring 65536 bytes for both, with a buffer of 24 + 65536 bytes.\<close>

definition frame_256 :: "u8 list" where
  "frame_256 =
     [1, 0, 0, 1, 0, 1, 0, 0, 0, 0, 0, 0, 0, 0, 0, 0, 0, 0, 0, 0, 0, 0, 1, 0, 0, 0, 1, 0]
     @ replicate 65532 0"


section \<open>The adaptive quality controller (network/AdaptiveQuality.ts)\<close>

text \<open>
  Numbers of the source that carry measurements are reals (not-a-number samples are
  outside the model); the degradation level is an integer, clamped by the source itself.
\<close>

record QualitySettings =
  q_dtype :: DataType
  downsample :: nat
  reason :: "string option"

record PerformanceMetrics =
  fps :: real
  avgFrameTime :: real
  m_droppedFrames :: real
  uploadLatency :: real
  bandwidthUtilization :: real
  memoryPressure :: real

text \<open>\<open>Partial<PerformanceMetrics>\<close>: every field may be absent.\<close>

record PartialMetrics =
  p_fps :: "real option"
  p_avgFrameTime :: "real option"
  p_droppedFrames :: "real option"
  p_uploadLatency :: "real option"
  p_bandwidthUtilization :: "real option"
  p_memoryPressure :: "real option"

text \<open>The quality message sent upstream; its timestamp (the wall clock) is left out.\<close>

record QualityMessage =
  msg_dtype :: string
  msg_downsample :: nat

text \<open>
  The controller. \<open>sendMessage\<close> tells whether a sender was injected; \<open>sent\<close> and
  \<open>notified\<close> record the calls of the sender and of the registered callbacks (named by
  numbers), in order.
\<close>

record AdaptiveQualityController =
  currentSettings :: QualitySettings
  baselineSettings :: QualitySettings
  metrics :: PerformanceMetrics
  callbacks :: "nat list"
  degradationLevel :: int
  steadyStateFrames :: nat
  isMonitoring :: bool
  sendMessage :: bool
  sent :: "QualityMessage list"
  notified :: "(nat \<times> QualitySettings) list"

definition new_AdaptiveQualityController :: "bool \<Rightarrow> AdaptiveQualityController" where
  "new_AdaptiveQualityController sender =
     \<lparr> currentSettings = \<lparr> q_dtype = F32, downsample = 1, reason = None \<rparr>,
       baselineSettings = \<lparr> q_dtype = F32, downsample = 1, reason = None \<rparr>,
       metrics = \<lparr> fps = 60, avgFrameTime = 16.67, m_droppedFrames = 0, uploadLatency = 0,
                   bandwidthUtilization = 0, memoryPressure = 0 \<rparr>,
       callbacks = [],
       degradationLevel = 0,
       steadyStateFrames = 0,
       isMonitoring = False,
       sendMessage = sender,
       sent = [],
       notified = [] \<rparr>"

subsection \<open>Thresholds and quality levels\<close>

definition fps_good :: real where "fps_good = 45"
definition fps_fair :: real where "fps_fair = 25"
definition fps_poor :: real where "fps_poor = 15"

definition frameTime_good :: real where "frameTime_good = 22"
definition frameTime_fair :: real where "frameTime_fair = 40"
definition frameTime_poor :: real where "frameTime_poor = 67"

definition droppedFrames_acceptable :: real where "droppedFrames_acceptable = 5"
definition droppedFrames_concerning :: real where "droppedFrames_concerning = 15"
definition droppedFrames_critical :: real where "droppedFrames_critical = 30"

definition uploadLatency_good :: real where "uploadLatency_good = 50"
definition uploadLatency_fair :: real where "uploadLatency_fair = 150"
definition uploadLatency_poor :: real where "uploadLatency_poor = 300"

definition threshold_steadyStateFrames :: nat where
  "threshold_steadyStateFrames = 60"

definition qualityLevels :: "QualitySettings list" where
  "qualityLevels =
     [\<lparr> q_dtype = F32, downsample = 1, reason = Some ''Full quality'' \<rparr>,
      \<lparr> q_dtype = U16, downsample = 1, reason = Some ''Reduced precision'' \<rparr>,
      \<lparr> q_dtype = U8, downsample = 1, reason = Some ''Low precision'' \<rparr>,
      \<lparr> q_dtype = U8, downsample = 2, reason = Some ''Low precision + downsampling'' \<rparr>]"

subsection \<open>Operations\<close>

text \<open>The interval timer itself is outside the model; the flag is kept.\<close>

definition startMonitoring :: "AdaptiveQualityController \<Rightarrow> AdaptiveQualityController" where
  "startMonitoring c = (if isMonitoring c then c else c \<lparr> isMonitoring := True \<rparr>)"

definition stopMonitoring :: "AdaptiveQualityController \<Rightarrow> AdaptiveQualityController" where
  "stopMonitoring c = (if \<not> isMonitoring c then c else c \<lparr> isMonitoring := False \<rparr>)"

definition updateMetrics ::
  "PartialMetrics \<Rightarrow> AdaptiveQualityController \<Rightarrow> AdaptiveQualityController" where
  "updateMetrics newMetrics c =
     c \<lparr> metrics :=
       \<lparr> fps = (case p_fps newMetrics of Some v \<Rightarrow> v | None \<Rightarrow> fps (metrics c)),
         avgFrameTime =
           (case p_avgFrameTime newMetrics of Some v \<Rightarrow> v | None \<Rightarrow> avgFrameTime (metrics c)),
         m_droppedFrames =
           (case p_droppedFrames newMetrics of Some v \<Rightarrow> v
            | None \<Rightarrow> m_droppedFrames (metrics c)),
         uploadLatency =
           (case p_uploadLatency newMetrics of Some v \<Rightarrow> v | None \<Rightarrow> uploadLatency (metrics c)),
         bandwidthUtilization =
           (case p_bandwidthUtilization newMetrics of Some v \<Rightarrow> v
            | None \<Rightarrow> bandwidthUtilization (metrics c)),
         memoryPressure =
           (case p_memoryPressure newMetrics of Some v \<Rightarrow> v
            | None \<Rightarrow> memoryPressure (metrics c)) \<rparr> \<rparr>"

definition onQualityChange :: "nat \<Rightarrow> AdaptiveQualityController \<Rightarrow> AdaptiveQualityController" where
  "onQualityChange callback c = c \<lparr> callbacks := callbacks c @ [callback] \<rparr>"

definition removeQualityCallback ::
  "nat \<Rightarrow> AdaptiveQualityController \<Rightarrow> AdaptiveQualityController" where
  "removeQualityCallback callback c = c \<lparr> callbacks := remove1 callback (callbacks c) \<rparr>"

definition getCurrentSettings :: "AdaptiveQualityController \<Rightarrow> QualitySettings" where
  "getCurrentSettings c = currentSettings c"

definition setBaselineSettings ::
  "QualitySettings \<Rightarrow> AdaptiveQualityController \<Rightarrow> AdaptiveQualityController" where
  "setBaselineSettings settings c = c \<lparr> baselineSettings := settings \<rparr>"

text \<open>
  The score: each of the four signals adds 0 to 3, and the sum is divided by the number
  of factors counted.
\<close>

definition calculatePerformanceScore :: "PerformanceMetrics \<Rightarrow> real" where
  "calculatePerformanceScore m =
     (let score = (0::nat); factors = (0::nat);
          score = score + (if fps m < fps_poor then 3
                           else if fps m < fps_fair then 2
                           else if fps m < fps_good then 1 else 0);
          factors = factors + 1;
          score = score + (if avgFrameTime m > frameTime_poor then 3
                           else if avgFrameTime m > frameTime_fair then 2
                           else if avgFrameTime m > frameTime_good then 1 else 0);
          factors = factors + 1;
          droppedFramesRate = m_droppedFrames m;
          score = score + (if droppedFramesRate > droppedFrames_critical then 3
                           else if droppedFramesRate > droppedFrames_concerning then 2
                           else if droppedFramesRate > droppedFrames_acceptable then 1 else 0);
          factors = factors + 1;
          score = score + (if uploadLatency m > uploadLatency_poor then 3
                           else if uploadLatency m > uploadLatency_fair then 2
                           else if uploadLatency m > uploadLatency_good then 1 else 0);
          factors = factors + 1
      in if factors > 0 then real score / real factors else 0)"

definition getTargetDegradation :: "real \<Rightarrow> int" where
  "getTargetDegradation performanceScore =
     (if performanceScore \<ge> 2.5 then 3
      else if performanceScore \<ge> 1.5 then 2
      else if performanceScore \<ge> 0.8 then 1
      else 0)"

definition settingsChanged :: "AdaptiveQualityController \<Rightarrow> QualitySettings \<Rightarrow> bool" where
  "settingsChanged c newSettings =
     (q_dtype (currentSettings c) \<noteq> q_dtype newSettings
      \<or> downsample (currentSettings c) \<noteq> downsample newSettings)"

fun getDataTypeString :: "DataType \<Rightarrow> string" where
  "getDataTypeString U8 = ''u8''"
| "getDataTypeString U16 = ''u16''"
| "getDataTypeString F32 = ''f32''"
| "getDataTypeString MuLawU8 = ''mulaw''"

definition qualityMessage :: "QualitySettings \<Rightarrow> QualityMessage" where
  "qualityMessage settings =
     \<lparr> msg_dtype = getDataTypeString (q_dtype settings),
       msg_downsample = downsample settings \<rparr>"

definition applyDegradation :: "int \<Rightarrow> AdaptiveQualityController \<Rightarrow> AdaptiveQualityController" where
  "applyDegradation level c =
     (let clampedLevel = max 0 (min level (int (length qualityLevels) - 1)) in
      if clampedLevel = degradationLevel c then c
      else
        let c1 = c \<lparr> degradationLevel := clampedLevel \<rparr>;
            newSettings = (if clampedLevel = 0 then baselineSettings c1
                           else qualityLevels ! nat clampedLevel)
        in if settingsChanged c1 newSettings
           then c1 \<lparr> currentSettings := newSettings,
                     sent := (if sendMessage c1 then sent c1 @ [qualityMessage newSettings]
                              else sent c1),
                     notified := notified c1 @ map (\<lambda>callback. (callback, newSettings))
                                                   (callbacks c1) \<rparr>
           else c1)"

definition evaluatePerformance :: "AdaptiveQualityController \<Rightarrow> AdaptiveQualityController" where
  "evaluatePerformance c =
     (let performanceScore = calculatePerformanceScore (metrics c);
          targetDegradation = getTargetDegradation performanceScore
      in if targetDegradation > degradationLevel c
         then (applyDegradation targetDegradation c) \<lparr> steadyStateFrames := 0 \<rparr>
         else if targetDegradation < degradationLevel c
         then
           (let c1 = c \<lparr> steadyStateFrames := steadyStateFrames c + 1 \<rparr> in
            if steadyStateFrames c1 \<ge> threshold_steadyStateFrames
            then (applyDegradation targetDegradation c1) \<lparr> steadyStateFrames := 0 \<rparr>
            else c1)
         else c \<lparr> steadyStateFrames := min (steadyStateFrames c + 1) 10 \<rparr>)"

definition forceQuality ::
  "QualitySettings \<Rightarrow> AdaptiveQualityController \<Rightarrow> AdaptiveQualityController" where
  "forceQuality settings c =
     (let c1 = applyDegradation 0 c;
          c2 = c1 \<lparr> currentSettings := settings, baselineSettings := settings \<rparr>
      in c2 \<lparr> sent := (if sendMessage c2 then sent c2 @ [qualityMessage settings] else sent c2),
              notified := notified c2 @ map (\<lambda>callback. (callback, settings)) (callbacks c2) \<rparr>)"

definition resetToBaseline :: "AdaptiveQualityController \<Rightarrow> AdaptiveQualityController" where
  "resetToBaseline c =
     (forceQuality (baselineSettings c) c) \<lparr> degradationLevel := 0, steadyStateFrames := 0 \<rparr>"

text \<open>
  The embedding application overwrites the metrics with a sample and the interval timer
  calls \<open>evaluatePerformance\<close>: one tick per sample.
\<close>

fun feed :: "AdaptiveQualityController \<Rightarrow> PartialMetrics list \<Rightarrow> AdaptiveQualityController" where
  "feed c [] = c"
| "feed c (m # ms) = feed (evaluatePerformance (updateMetrics m c)) ms"

text \<open>The target level a tick computes from the metrics the controller holds.\<close>

definition targetOf :: "AdaptiveQualityController \<Rightarrow> int" where
  "targetOf c = getTargetDegradation (calculatePerformanceScore (metrics c))"

text \<open>A run in which every tick computes a target better (lower) than the current level.\<close>

fun betterRun :: "AdaptiveQualityController \<Rightarrow> PartialMetrics list \<Rightarrow> bool" where
  "betterRun c [] = True"
| "betterRun c (m # ms) =
     (targetOf (updateMetrics m c) < degradationLevel (updateMetrics m c)
      \<and> betterRun (evaluatePerformance (updateMetrics m c)) ms)"

subsection \<open>Samples used as concrete inputs\<close>

definition poorSample :: PartialMetrics where
  "poorSample = \<lparr> p_fps = Some 10, p_avgFrameTime = Some 100, p_droppedFrames = Some 20,
                  p_uploadLatency = Some 500, p_bandwidthUtilization = None,
                  p_memoryPressure = None \<rparr>"

definition goodSample :: PartialMetrics where
  "goodSample = \<lparr> p_fps = Some 60, p_avgFrameTime = Some 16, p_droppedFrames = Some 0,
                  p_uploadLatency = Some 10, p_bandwidthUtilization = None,
                  p_memoryPressure = None \<rparr>"

section \<open>The decompression worker pool (workers/DecompressionPool)\<close>

text \<open>
  Workers are named by numbers. A promise handed to a caller is settled by a call of the
  task's \<open>resolve\<close> or \<open>reject\<close>; these calls are recorded in \<open>settled\<close>, the
  messages posted to workers in \<open>posted\<close>, and the calls of \<open>terminate\<close> in
  \<open>terminated\<close>, each in order. The errors a task is rejected with are the four the
  source constructs: back-pressure, worker error (with the event's message), disposal,
  and a failure reported by the worker.
\<close>

datatype task_error =
    BackPressure
  | WorkerError string
  | Disposed
  | DecompressionFailed string

datatype outcome = Resolved "u8 list option" | Rejected task_error

text \<open>
  What \<open>decompress\<close> returns: a promise already fulfilled with the data, or the promise
  of the task with the given id.
\<close>

datatype promise = Fulfilled "u8 list" | Pending nat

record DecompressionTask =
  task_id :: nat
  task_data :: "u8 list"
  task_compression :: CompressionType
  task_uncompressedSize :: nat
  timestamp :: real

record DecompressionStats =
  totalTasks :: nat
  completedTasks :: nat
  averageTimeMs :: real
  queueLength :: nat
  activeWorkers :: nat
  droppedTasks :: nat

record DecompressionRequest =
  req_id :: nat
  req_data :: "u8 list"
  req_compression :: CompressionType
  req_uncompressedSize :: nat

record DecompressionResponse =
  resp_id :: nat
  resp_success :: bool
  resp_data :: "u8 list option"
  resp_error :: "string option"
  resp_timing :: "real option"

text \<open>
  \<open>pendingTasks\<close> is a \<open>Map\<close>, which keeps its keys in insertion order: an association
  list with \<open>AList.update\<close> (replace in place, or append), \<open>AList.delete\<close> and
  \<open>map_of\<close>.
\<close>

record DecompressionPool =
  workers :: "nat list"
  availableWorkers :: "nat list"
  busyWorkers :: "nat set"
  taskQueue :: "DecompressionTask list"
  pendingTasks :: "(nat \<times> DecompressionTask) list"
  nextTaskId :: nat
  poolSize :: nat
  maxQueueSize :: nat
  stats :: DecompressionStats
  settled :: "(nat \<times> outcome) list"
  posted :: "(nat \<times> DecompressionRequest) list"
  terminated :: "nat list"

text \<open>
  The constructor and \<open>initializeWorkers\<close>. The last argument is
  \<open>navigator.hardwareConcurrency\<close>, which may be absent; absent or 0, it counts as 4.
\<close>

definition new_DecompressionPool :: "nat \<Rightarrow> nat \<Rightarrow> nat option \<Rightarrow> DecompressionPool" where
  "new_DecompressionPool poolSize' maxQueueSize' hardwareConcurrency =
     (let n = min poolSize'
                (case hardwareConcurrency of None \<Rightarrow> 4 | Some h \<Rightarrow> if h = 0 then 4 else h)
      in \<lparr> workers = [0..<n],
           availableWorkers = [0..<n],
           busyWorkers = {},
           taskQueue = [],
           pendingTasks = [],
           nextTaskId = 1,
           poolSize = n,
           maxQueueSize = maxQueueSize',
           stats = \<lparr> totalTasks = 0, completedTasks = 0, averageTimeMs = 0,
                     queueLength = 0, activeWorkers = 0, droppedTasks = 0 \<rparr>,
           settled = [],
           posted = [],
           terminated = [] \<rparr>)"

text \<open>The pool of \<open>getDecompressionPool\<close>, made with the default arguments.\<close>

definition default_DecompressionPool :: "nat option \<Rightarrow> DecompressionPool" where
  "default_DecompressionPool hardwareConcurrency = new_DecompressionPool 4 50 hardwareConcurrency"

definition updateStats :: "DecompressionPool \<Rightarrow> DecompressionPool" where
  "updateStats s =
     s \<lparr> stats := (stats s) \<lparr> queueLength := length (taskQueue s),
                              activeWorkers := card (busyWorkers s) \<rparr> \<rparr>"

definition processNextTask :: "DecompressionPool \<Rightarrow> DecompressionPool" where
  "processNextTask s =
     (case taskQueue s of
        [] \<Rightarrow> s
      | task # queue' \<Rightarrow>
          (case availableWorkers s of
             [] \<Rightarrow> s
           | worker # available' \<Rightarrow>
               updateStats
                 (s \<lparr> taskQueue := queue',
                      availableWorkers := available',
                      busyWorkers := insert worker (busyWorkers s),
                      pendingTasks := AList.update (task_id task) task (pendingTasks s),
                      posted := posted s @
                        [(worker, \<lparr> req_id = task_id task, req_data = task_data task,
                                    req_compression = task_compression task,
                                    req_uncompressedSize = task_uncompressedSize task \<rparr>)] \<rparr>)))"

definition updateAverageTime :: "real \<Rightarrow> DecompressionPool \<Rightarrow> DecompressionPool" where
  "updateAverageTime newTime s =
     (let oldAvg = averageTimeMs (stats s);
          count = real (completedTasks (stats s))
      in s \<lparr> stats := (stats s) \<lparr> averageTimeMs := (oldAvg * (count - 1) + newTime) / count \<rparr> \<rparr>)"

text \<open>\<open>handleWorkerMessage\<close>: \<open>worker\<close> is the event's target, \<open>response\<close> its data.\<close>

definition handleWorkerMessage ::
  "nat \<Rightarrow> DecompressionResponse \<Rightarrow> DecompressionPool \<Rightarrow> DecompressionPool" where
  "handleWorkerMessage worker response s =
     (case map_of (pendingTasks s) (resp_id response) of
        None \<Rightarrow> s
      | Some task \<Rightarrow>
          let s1 = s \<lparr> pendingTasks := AList.delete (resp_id response) (pendingTasks s),
                       busyWorkers := busyWorkers s - {worker},
                       availableWorkers := availableWorkers s @ [worker] \<rparr>;
              s2 = s1 \<lparr> stats := (stats s1) \<lparr> completedTasks := completedTasks (stats s1) + 1 \<rparr> \<rparr>;
              s3 = (case resp_timing response of
                      None \<Rightarrow> s2
                    | Some t \<Rightarrow> if t = 0 then s2 else updateAverageTime t s2);
              s4 = s3 \<lparr> settled := settled s3 @
                     [(task_id task,
                       if resp_success response then Resolved (resp_data response)
                       else Rejected (DecompressionFailed
                              (case resp_error response of
                                 None \<Rightarrow> ''Decompression failed''
                               | Some e \<Rightarrow> if e = [] then ''Decompression failed'' else e)))] \<rparr>
          in processNextTask s4)"

text \<open>
  The loop of \<open>handleWorkerError\<close> over the entries of \<open>pendingTasks\<close>: the test of each
  round is whether the worker is in \<open>busyWorkers\<close>.
\<close>

fun rejectPending ::
  "nat \<Rightarrow> string \<Rightarrow> (nat \<times> DecompressionTask) list \<Rightarrow> DecompressionPool \<Rightarrow> DecompressionPool" where
  "rejectPending worker message [] s = s"
| "rejectPending worker message ((taskId, task) # entries) s =
     rejectPending worker message entries
       (if worker \<in> busyWorkers s
        then s \<lparr> pendingTasks := AList.delete taskId (pendingTasks s),
                 settled := settled s @ [(task_id task, Rejected (WorkerError message))] \<rparr>
        else s)"

definition handleWorkerError :: "nat \<Rightarrow> string \<Rightarrow> DecompressionPool \<Rightarrow> DecompressionPool" where
  "handleWorkerError worker message s =
     (let s1 = rejectPending worker message (pendingTasks s) s
      in s1 \<lparr> busyWorkers := busyWorkers s1 - {worker} \<rparr>)"

text \<open>The back-pressure block of \<open>decompress\<close>, which runs before the new task is made.\<close>

definition dropOldest :: "DecompressionPool \<Rightarrow> DecompressionPool" where
  "dropOldest s =
     (if length (taskQueue s) \<ge> maxQueueSize s
      then (case taskQueue s of
              [] \<Rightarrow> s
            | droppedTask # queue' \<Rightarrow>
                s \<lparr> taskQueue := queue',
                    settled := settled s @ [(task_id droppedTask, Rejected BackPressure)],
                    stats := (stats s) \<lparr> droppedTasks := droppedTasks (stats s) + 1 \<rparr> \<rparr>)
      else s)"

text \<open>\<open>decompress\<close>; \<open>now\<close> is the reading of \<open>performance.now()\<close>.\<close>

definition decompress ::
  "u8 list \<Rightarrow> CompressionType \<Rightarrow> nat \<Rightarrow> real \<Rightarrow> DecompressionPool
     \<Rightarrow> promise \<times> DecompressionPool" where
  "decompress data' compression' uncompressedSize now s =
     (if compression' = None_ct then (Fulfilled data', s)
      else
        let s1 = dropOldest s;
            task = \<lparr> task_id = nextTaskId s1, task_data = data',
                     task_compression = compression',
                     task_uncompressedSize = uncompressedSize, timestamp = now \<rparr>;
            s2 = s1 \<lparr> nextTaskId := nextTaskId s1 + 1 \<rparr>;
            s3 = s2 \<lparr> stats := (stats s2) \<lparr> totalTasks := totalTasks (stats s2) + 1 \<rparr> \<rparr>;
            s4 = s3 \<lparr> taskQueue := taskQueue s3 @ [task] \<rparr>
        in (Pending (task_id task), processNextTask s4))"

definition pool_getStats :: "DecompressionPool \<Rightarrow> DecompressionStats \<times> DecompressionPool" where
  "pool_getStats s = (stats (updateStats s), updateStats s)"

text \<open>The pressure is a quotient of two numbers; a capacity of 0 is outside the model.\<close>

definition getQueuePressure :: "DecompressionPool \<Rightarrow> real" where
  "getQueuePressure s = real (length (taskQueue s)) / real (maxQueueSize s)"

definition shouldBackOff :: "DecompressionPool \<Rightarrow> bool" where
  "shouldBackOff s = (getQueuePressure s > 0.8)"

definition dispose :: "DecompressionPool \<Rightarrow> DecompressionPool" where
  "dispose s =
     s \<lparr> settled := settled s
            @ map (\<lambda>task. (task_id task, Rejected Disposed)) (map snd (pendingTasks s))
            @ map (\<lambda>task. (task_id task, Rejected Disposed)) (taskQueue s),
         terminated := terminated s @ workers s,
         workers := [],
         availableWorkers := [],
         busyWorkers := {},
         taskQueue := [],
         pendingTasks := [] \<rparr>"

text \<open>
  \<open>TileDecompressor.decompress\<close> (protocol/index.ts) hands every call to the pool.
\<close>

definition TileDecompressor_decompress ::
  "u8 list \<Rightarrow> CompressionType \<Rightarrow> nat \<Rightarrow> real \<Rightarrow> DecompressionPool
     \<Rightarrow> promise \<times> DecompressionPool" where
  "TileDecompressor_decompress data' compression' uncompressedSize now s =
     decompress data' compression' uncompressedSize now s"

text \<open>
  A run of submissions with no completion in between. A submission is the arguments of
  one call: data, compression kind, declared size, and the clock.
\<close>

type_synonym submission = "u8 list \<times> CompressionType \<times> nat \<times> real"

fun submit :: "DecompressionPool \<Rightarrow> submission \<Rightarrow> DecompressionPool" where
  "submit s (data', compression', uncompressedSize, now) =
     snd (decompress data' compression' uncompressedSize now s)"

fun submit_all :: "DecompressionPool \<Rightarrow> submission list \<Rightarrow> DecompressionPool" where
  "submit_all s [] = s"
| "submit_all s (x # xs) = submit_all (submit s x) xs"

definition compressed :: "submission \<Rightarrow> bool" where
  "compressed x = (fst (snd x) \<noteq> None_ct)"

definition queue_ids :: "DecompressionPool \<Rightarrow> nat list" where
  "queue_ids s = map task_id (taskQueue s)"

subsection \<open>Pools and messages used as concrete inputs\<close>

definition lz4_task :: submission where
  "lz4_task = ([1, 2, 3], LZ4, 8, 0)"

text \<open>Two workers, both busy with one task each: tasks 1 and 2 of two submissions.\<close>

definition pool_two_busy :: DecompressionPool where
  "pool_two_busy = submit_all (new_DecompressionPool 2 50 (Some 8)) [lz4_task, lz4_task]"

text \<open>Two workers and five submissions: two tasks in flight, three queued.\<close>

definition pool_3_queued_2_inflight :: DecompressionPool where
  "pool_3_queued_2_inflight =
     submit_all (new_DecompressionPool 2 50 (Some 8)) (replicate 5 lz4_task)"

definition response_task_2 :: DecompressionResponse where
  "response_task_2 = \<lparr> resp_id = 2, resp_success = True, resp_data = Some [9, 9],
                        resp_error = None, resp_timing = Some 1 \<rparr>"

section \<open>Properties of the frame parser\<close>

lemmas accessor_defs = getUint8_def getUint16_def getUint32_def

lemmas limit_defs = TILE_HEADER_SIZE_def EXPECTED_MSG_TYPE_def maxTileWidth_def
  maxTileHeight_def maxCoordinate_def maxSliceIndex_def maxPixelsPerTile_def maxPayloadSize_def

lemmas enum_defs = isValidPlaneType_def isValidDataType_def isValidCompressionType_def
  DataType_of_def CompressionType_of_def PlaneType_of_def

lemma throws_Inr: "throws m f = Inr r \<longleftrightarrow> (\<exists>x. m = Inr x \<and> f x = Inr r)"
  by (cases m) (simp_all add: throws_def)

text \<open>A read that returns a value lies inside the buffer.\<close>

lemma getUint8_in_range: "getUint8 view off = Inr v \<Longrightarrow> off + 1 \<le> length view"
  by (simp add: getUint8_def split: if_splits)

lemma getUint16_in_range: "getUint16 view off le = Inr v \<Longrightarrow> off + 2 \<le> length view"
  by (simp add: getUint16_def split: if_splits)

lemma getUint32_in_range: "getUint32 view off le = Inr v \<Longrightarrow> off + 4 \<le> length view"
  by (simp add: getUint32_def split: if_splits)

text \<open>What an accepted header says about the bytes it was read from.\<close>

lemma parseHeader_try_accept:
  assumes "parseHeader_try view = Inr (Inr h)"
  shows "getUint8 view 0 = Inr (msgType h) \<and> msgType h = EXPECTED_MSG_TYPE
    \<and> getUint16 view 2 True = Inr (tileW h)
    \<and> getUint16 view 4 True = Inr (tileH h)
    \<and> getUint32 view 20 True = Inr (uncompressedBytes h)
    \<and> getUint32 view 24 True = Inr (payloadBytes h)
    \<and> uncompressedBytes h = tileW h * tileH h * getBytesPerSample (dtype h)
    \<and> (compression h = None_ct \<longrightarrow> uncompressedBytes h = payloadBytes h)
    \<and> payloadBytes h \<le> maxPayloadSize"
  using assms
  apply (simp add: parseHeader_try_def Let_def throws_Inr del: One_nat_def split: if_splits)
  apply (auto simp: isValidCompressionType_def)
  done

text \<open>
  \<open>parse\<close> without its exception plumbing: behind the length check the constructor of
  the payload view cannot throw, so the \<open>catch\<close> of \<open>parse\<close> is never entered.
\<close>

lemma parse_eq:
  "parse p buffer =
     (let p1 = p \<lparr> frameCount := frameCount p + 1 \<rparr> in
      if length buffer < TILE_HEADER_SIZE
      then (failure BUFFER_TOO_SHORT buffer, recordDrop BUFFER_TOO_SHORT p1)
      else case parseHeader buffer of
        Inl e \<Rightarrow> (failure e buffer, recordDrop e p1)
      | Inr h \<Rightarrow>
          if length buffer \<noteq> TILE_HEADER_SIZE + payloadBytes h
          then (failure PAYLOAD_SIZE_MISMATCH buffer, recordDrop PAYLOAD_SIZE_MISMATCH p1)
          else (case validatePayload (drop TILE_HEADER_SIZE buffer) h of
                  Some e \<Rightarrow> (failure e buffer, recordDrop e p1)
                | None \<Rightarrow>
                    (\<lparr> success = True,
                       data = Some \<lparr> header = h, payload = drop TILE_HEADER_SIZE buffer \<rparr>,
                       error = None, droppedBytes = None \<rparr>, p1)))"
  by (simp add: parse_def parse_try_def Uint8Array_of_def Let_def split: sum.splits option.splits)

lemma parse_try_no_throw: "parse_try q buffer \<noteq> Inl xq"
  by (simp add: parse_try_def Uint8Array_of_def Let_def split: sum.splits option.splits)

lemma parse_frameCount: "frameCount (snd (parse p buffer)) = frameCount p + 1"
  by (simp add: parse_eq recordDrop_def Let_def split: sum.splits option.splits)

lemma parse_droppedFrames:
  "droppedFrames (snd (parse p buffer)) =
     droppedFrames p + (if success (fst (parse p buffer)) then 0 else 1)"
  by (simp add: parse_eq failure_def recordDrop_def Let_def split: sum.splits option.splits)

lemma parse_success_iff:
  "success (fst (parse p buffer)) \<longleftrightarrow> error (fst (parse p buffer)) = None"
  by (simp add: parse_eq failure_def recordDrop_def Let_def split: sum.splits option.splits)

lemma parse_accept:
  assumes "success (fst (parse p buffer))"
  shows "\<exists>h. parseHeader_try buffer = Inr (Inr h)
     \<and> length buffer = TILE_HEADER_SIZE + payloadBytes h
     \<and> data (fst (parse p buffer))
         = Some \<lparr> header = h, payload = drop TILE_HEADER_SIZE buffer \<rparr>"
  using assms
  by (auto simp: parse_eq failure_def parseHeader_def Let_def
      split: sum.splits option.splits if_splits)

subsection \<open>The concrete frames\<close>

lemma parseHeader_frame_2x2:
  "parseHeader_try frame_2x2 =
     Inr (Inr \<lparr> msgType = 1, plane = Inline, tileW = 2, tileH = 2,
                tileX = 0, tileY = 0, sliceIndex = 0, dtype = U8, compression = None_ct,
                uncompressedBytes = 4, payloadBytes = 4 \<rparr>)"
  by (simp add: parseHeader_try_def frame_2x2_def throws_def accessor_defs limit_defs
      enum_defs Let_def)

lemma parseHeader_frame_24: "parseHeader_try frame_24 = Inl RangeError"
  by (simp add: parseHeader_try_def frame_24_def throws_def accessor_defs limit_defs
      enum_defs Let_def)

subsection \<open>Statistics\<close>

lemma parser_run_invariant:
  "droppedFrames p \<le> frameCount p \<Longrightarrow>
     droppedFrames (parser_run p cs) \<le> frameCount (parser_run p cs)"
proof (induction p cs rule: parser_run.induct)
  case (1 p)
  then show ?case by simp
next
  case (2 p b cs)
  then show ?case by (simp add: parse_frameCount parse_droppedFrames)
next
  case (3 p cs)
  then show ?case by (simp add: resetStats_def)
qed

lemma successRate_bounds:
  assumes "droppedFrames p \<le> frameCount p"
  shows "0 \<le> successRate (getStats p) \<and> successRate (getStats p) \<le> 1"
  using assms by (simp add: getStats_def)

text \<open>
  C10. Every call of \<open>parse\<close> adds one to \<open>frameCount\<close>, and one to \<open>droppedFrames\<close>
  exactly when the result has \<open>success = false\<close>. So in every state the parser reaches
  from its creation, through calls of \<open>parse\<close> and \<open>resetStats\<close>, the dropped frames
  are at most the total frames; \<open>getStats\<close> reports the two counters, with
  \<open>successRate = (totalFrames - droppedFrames) / totalFrames\<close>, or 1 when no frame
  was counted; and the rate lies between 0 and 1. (The rate is the exact quotient; the
  source computes it in double precision.)
\<close>

theorem parser_statistics_invariant:
  "frameCount (snd (parse p buffer)) = frameCount p + 1
   \<and> droppedFrames (snd (parse p buffer))
       = droppedFrames p + (if success (fst (parse p buffer)) then 0 else 1)
   \<and> droppedFrames (parser_run new_TileFrameParser cs)
       \<le> frameCount (parser_run new_TileFrameParser cs)
   \<and> totalFrames (getStats q) = frameCount q
   \<and> stats_droppedFrames (getStats q) = droppedFrames q
   \<and> successRate (getStats q)
       = (if totalFrames (getStats q) = 0 then 1
          else (real (totalFrames (getStats q)) - real (stats_droppedFrames (getStats q)))
               / real (totalFrames (getStats q)))
   \<and> 0 \<le> successRate (getStats (parser_run new_TileFrameParser cs))
   \<and> successRate (getStats (parser_run new_TileFrameParser cs)) \<le> 1"
proof -
  have inv: "droppedFrames (parser_run new_TileFrameParser cs)
      \<le> frameCount (parser_run new_TileFrameParser cs)"
    by (rule parser_run_invariant) (simp add: new_TileFrameParser_def)
  have rate: "successRate (getStats q)
       = (if totalFrames (getStats q) = 0 then 1
          else (real (totalFrames (getStats q)) - real (stats_droppedFrames (getStats q)))
               / real (totalFrames (getStats q)))"
    by (simp add: getStats_def)
  have fields: "totalFrames (getStats q) = frameCount q"
    "stats_droppedFrames (getStats q) = droppedFrames q"
    by (simp_all add: getStats_def)
  show ?thesis
    using inv rate fields successRate_bounds [OF inv]
    by (simp only: parse_frameCount parse_droppedFrames simp_thms)
qed

subsection \<open>Totality and exceptions\<close>

text \<open>
  C7. \<open>parse\<close> returns a \<open>ParseResult\<close> for every buffer: its \<open>try\<close> block raises
  nothing past the \<open>catch\<close>, and the result either succeeds or names its error. A
  buffer shorter than 24 bytes yields \<open>BUFFER_TOO_SHORT\<close>, and the outcome is the same
  for every buffer of that length: no byte is read. An exception raised by a read of the
  header (a \<open>RangeError\<close> of the \<open>DataView\<close>) becomes the \<open>CORRUPTED_HEADER\<close> result.
\<close>

theorem parse_total_never_throws:
  "(success (fst (parse p buffer)) \<longleftrightarrow> error (fst (parse p buffer)) = None)
   \<and> parse_try q buffer \<noteq> Inl xq
   \<and> (length buffer < TILE_HEADER_SIZE \<longrightarrow>
        parse p buffer = (failure BUFFER_TOO_SHORT buffer,
                          recordDrop BUFFER_TOO_SHORT (p \<lparr> frameCount := frameCount p + 1 \<rparr>))
        \<and> (\<forall>b'. length b' = length buffer \<longrightarrow> parse p b' = parse p buffer))
   \<and> (TILE_HEADER_SIZE \<le> length buffer \<and> parseHeader_try buffer = Inl x \<longrightarrow>
        parse p buffer = (failure CORRUPTED_HEADER buffer,
                          recordDrop CORRUPTED_HEADER (p \<lparr> frameCount := frameCount p + 1 \<rparr>)))"
proof -
  have short: "parse p b = (failure BUFFER_TOO_SHORT b,
        recordDrop BUFFER_TOO_SHORT (p \<lparr> frameCount := frameCount p + 1 \<rparr>))"
    if "length b < TILE_HEADER_SIZE" for b
    using that by (simp add: parse_eq Let_def)
  have same: "parse p b' = parse p buffer"
    if "length buffer < TILE_HEADER_SIZE" "length b' = length buffer" for b'
    using that short [of b'] short [of buffer] by (simp add: failure_def)
  have thrown: "parse p buffer = (failure CORRUPTED_HEADER buffer,
        recordDrop CORRUPTED_HEADER (p \<lparr> frameCount := frameCount p + 1 \<rparr>))"
    if "TILE_HEADER_SIZE \<le> length buffer" "parseHeader_try buffer = Inl x"
    using that by (simp add: parse_eq parseHeader_def Let_def)
  show ?thesis
    using short [of buffer] same thrown parse_success_iff [of p buffer]
      parse_try_no_throw [of q buffer xq]
    by blast
qed

theorem parse_total_never_throws_witness:
  "length [1, 2, 3 :: u8] < TILE_HEADER_SIZE
   \<and> fst (parse new_TileFrameParser [1, 2, 3]) = failure BUFFER_TOO_SHORT [1, 2, 3]
   \<and> parse new_TileFrameParser [7, 7, 7] = parse new_TileFrameParser [1, 2, 3]
   \<and> TILE_HEADER_SIZE \<le> length frame_24
   \<and> parseHeader_try frame_24 = Inl RangeError
   \<and> fst (parse new_TileFrameParser frame_24) = failure CORRUPTED_HEADER frame_24"
proof -
  have s: "length [1, 2, 3 :: u8] < TILE_HEADER_SIZE"
    by (simp add: TILE_HEADER_SIZE_def)
  have l: "TILE_HEADER_SIZE \<le> length frame_24"
    by (simp add: TILE_HEADER_SIZE_def frame_24_def)
  note short = parse_total_never_throws [of new_TileFrameParser "[1, 2, 3]"]
  note thrown = parse_total_never_throws [of new_TileFrameParser frame_24 _ _ RangeError]
  from short s
  have a: "fst (parse new_TileFrameParser [1, 2, 3]) = failure BUFFER_TOO_SHORT [1, 2, 3]"
    by (metis fst_conv)
  from short s have "\<forall>b'. length b' = length [1, 2, 3 :: u8]
      \<longrightarrow> parse new_TileFrameParser b' = parse new_TileFrameParser [1, 2, 3]"
    by blast
  then have "length [7, 7, 7 :: u8] = length [1, 2, 3 :: u8]
      \<longrightarrow> parse new_TileFrameParser [7, 7, 7] = parse new_TileFrameParser [1, 2, 3]"
    by (rule spec)
  then have b: "parse new_TileFrameParser [7, 7, 7] = parse new_TileFrameParser [1, 2, 3]"
    by simp
  from thrown l parseHeader_frame_24
  have c: "fst (parse new_TileFrameParser frame_24) = failure CORRUPTED_HEADER frame_24"
    by (metis fst_conv)
  from s a b l c parseHeader_frame_24 show ?thesis
    by blast
qed

subsection \<open>Header layout and declared sizes\<close>

lemma parse_frame_2x2:
  "fst (parse p frame_2x2) =
     \<lparr> success = True,
       data = Some \<lparr> header = \<lparr> msgType = 1, plane = Inline, tileW = 2, tileH = 2,
                tileX = 0, tileY = 0, sliceIndex = 0, dtype = U8, compression = None_ct,
                uncompressedBytes = 4, payloadBytes = 4 \<rparr>, payload = [4, 0, 0, 0] \<rparr>,
       error = None, droppedBytes = None \<rparr>"
  by (simp add: parse_eq parseHeader_def parseHeader_frame_2x2 validatePayload_def Let_def
      TILE_HEADER_SIZE_def) (simp add: frame_2x2_def)

lemma decode_direct_frame_2x2:
  "TileDecoder_decode_direct frame_2x2 =
     Inr (Some \<lparr> raw_header = \<lparr> raw_msgType = 1, raw_plane = 0, raw_tileW = 2,
                     raw_tileH = 2, raw_tileX = 0, raw_tileY = 0, raw_sliceIndex = 0,
                     raw_dtype = 0, raw_compression = 0, raw_uncompressedBytes = 4,
                     raw_payloadBytes = 4 \<rparr>,
                  raw_payload = [4, 0, 0, 0] \<rparr>)"
  by (simp add: TileDecoder_decode_direct_def frame_2x2_def throws_def accessor_defs
      Uint8Array_of_def Let_def)

lemma decode_direct_frame_24: "TileDecoder_decode_direct frame_24 = Inl RangeError"
  by (simp add: TileDecoder_decode_direct_def frame_24_def throws_def accessor_defs Let_def)

text \<open>
  Every accepted frame has at least 28 bytes, and its payload begins with the four bytes
  that encode its own length.
\<close>

lemma accepted_payload_starts_with_its_length:
  assumes "success (fst (parse p buffer))"
  shows "getUint32 buffer 24 True
           = Inr (payloadBytes (header (the (data (fst (parse p buffer))))))
    \<and> payload (the (data (fst (parse p buffer)))) = drop 24 buffer
    \<and> 28 \<le> length buffer"
proof -
  from parse_accept [OF assms] obtain h where h: "parseHeader_try buffer = Inr (Inr h)"
    "data (fst (parse p buffer))
       = Some \<lparr> header = h, payload = drop TILE_HEADER_SIZE buffer \<rparr>"
    by blast
  from parseHeader_try_accept [OF h(1)]
  have r: "getUint32 buffer 24 True = Inr (payloadBytes h)" by simp
  from getUint32_in_range [OF r] r h(2) show ?thesis
    by (simp add: TILE_HEADER_SIZE_def)
qed

text \<open>
  C3. The specification asks that all eleven header fields be read inside the first 24 bytes and
  that no header field overlap the payload, which starts at byte 24. The source reads
  the last field, \<open>payloadBytes\<close>, at bytes 24 to 27. On the accepted frame
  \<open>frame_2x2\<close> (28 bytes) the declared payload length 4 is read at offset 24, and the
  payload handed out is those same four bytes; changing byte 24, a payload byte, changes
  the header's verdict; and the first 24 bytes alone, a complete header by
  \<open>TILE_HEADER_SIZE\<close>, are rejected as a corrupted header. The decoder that reads the
  fields itself has the same layout: it hands out the same payload, and on the first 24
  bytes alone its read of \<open>payloadBytes\<close> throws.
\<close>

theorem payloadBytes_read_inside_payload:
  "TILE_HEADER_SIZE = 24
   \<and> success (fst (parse new_TileFrameParser frame_2x2))
   \<and> payloadBytes (header (the (data (fst (parse new_TileFrameParser frame_2x2))))) = 4
   \<and> getUint32 frame_2x2 24 True = Inr 4
   \<and> payload (the (data (fst (parse new_TileFrameParser frame_2x2)))) = drop 24 frame_2x2
   \<and> payload (the (data (fst (parse new_TileFrameParser frame_2x2)))) = [4, 0, 0, 0]
   \<and> fst (parse new_TileFrameParser (frame_2x2 [24 := 5]))
       = failure UNCOMPRESSED_SIZE_MISMATCH (frame_2x2 [24 := 5])
   \<and> fst (parse new_TileFrameParser frame_24) = failure CORRUPTED_HEADER frame_24
   \<and> map_sum id (map_option raw_payload) (TileDecoder_decode_direct frame_2x2)
       = Inr (Some [4, 0, 0, 0])
   \<and> TileDecoder_decode_direct frame_24 = Inl RangeError"
proof -
  have a: "getUint32 frame_2x2 24 True = Inr 4"
    by (simp add: frame_2x2_def getUint32_def)
  have b: "drop 24 frame_2x2 = [4, 0, 0, 0]"
    by (simp add: frame_2x2_def)
  have c: "parseHeader_try (frame_2x2 [24 := 5]) = Inr (Inl UNCOMPRESSED_SIZE_MISMATCH)"
    by (simp add: parseHeader_try_def frame_2x2_def throws_def accessor_defs limit_defs
      enum_defs Let_def)
  have d: "fst (parse new_TileFrameParser (frame_2x2 [24 := 5]))
       = failure UNCOMPRESSED_SIZE_MISMATCH (frame_2x2 [24 := 5])"
    by (simp add: parse_eq parseHeader_def c Let_def) (simp add: frame_2x2_def TILE_HEADER_SIZE_def)
  have e: "fst (parse new_TileFrameParser frame_24) = failure CORRUPTED_HEADER frame_24"
    by (simp add: parse_eq parseHeader_def parseHeader_frame_24 Let_def)
      (simp add: frame_24_def TILE_HEADER_SIZE_def)
  show ?thesis
    by (simp add: parse_frame_2x2 a b d e decode_direct_frame_2x2 decode_direct_frame_24)
      (simp add: TILE_HEADER_SIZE_def)
qed

lemma parseHeader_header_256_short:
  "parseHeader_try header_256_short = Inr (Inl UNCOMPRESSED_SIZE_MISMATCH)"
  by (simp add: parseHeader_try_def header_256_short_def throws_def accessor_defs limit_defs
      enum_defs Let_def)

lemma length_frame_256: "length frame_256 = 65560"
  by (simp add: frame_256_def)

lemma reads_frame_256:
  "getUint8 frame_256 0 = Inr 1" "getUint8 frame_256 1 = Inr 0"
  "getUint16 frame_256 2 True = Inr 256" "getUint16 frame_256 4 True = Inr 256"
  "getUint32 frame_256 6 True = Inr 0" "getUint32 frame_256 10 True = Inr 0"
  "getUint32 frame_256 14 True = Inr 0"
  "getUint8 frame_256 18 = Inr 0" "getUint8 frame_256 19 = Inr 0"
  "getUint32 frame_256 20 True = Inr 65536" "getUint32 frame_256 24 True = Inr 65536"
  by (simp_all add: accessor_defs length_frame_256) (simp_all add: frame_256_def nth_append)

lemma parseHeader_frame_256:
  "parseHeader_try frame_256 =
     Inr (Inr \<lparr> msgType = 1, plane = Inline, tileW = 256, tileH = 256,
                tileX = 0, tileY = 0, sliceIndex = 0, dtype = U8, compression = None_ct,
                uncompressedBytes = 65536, payloadBytes = 65536 \<rparr>)"
  by (simp add: parseHeader_try_def throws_def limit_defs enum_defs Let_def reads_frame_256
      del: One_nat_def)

lemma parse_frame_256:
  "success (fst (parse p frame_256))
   \<and> header (the (data (fst (parse p frame_256)))) =
      \<lparr> msgType = 1, plane = Inline, tileW = 256, tileH = 256,
                tileX = 0, tileY = 0, sliceIndex = 0, dtype = U8, compression = None_ct,
                uncompressedBytes = 65536, payloadBytes = 65536 \<rparr>"
  by (simp add: parse_eq parseHeader_def parseHeader_frame_256 validatePayload_def Let_def
      TILE_HEADER_SIZE_def length_frame_256)


lemma parseHeader_declares_65535:
  assumes "getUint8 b 0 = Inr EXPECTED_MSG_TYPE"
    and "getUint8 b 1 = Inr pv" and "isValidPlaneType pv"
    and "getUint16 b 2 True = Inr 256" and "getUint16 b 4 True = Inr 256"
    and "getUint32 b 6 True = Inr x" and "x \<le> maxCoordinate"
    and "getUint32 b 10 True = Inr y" and "y \<le> maxCoordinate"
    and "getUint32 b 14 True = Inr sl" and "sl \<le> maxSliceIndex"
    and "getUint8 b 18 = Inr dv" and "DataType_of dv = Some U8"
    and "getUint8 b 19 = Inr cv" and "CompressionType_of cv = Some None_ct"
    and "getUint32 b 20 True = Inr 65536" and "getUint32 b 24 True = Inr 65535"
  shows "parseHeader_try b = Inr (Inl UNCOMPRESSED_SIZE_MISMATCH)"
  using assms
  by (simp add: parseHeader_try_def throws_def Let_def isValidDataType_def
      isValidCompressionType_def maxTileWidth_def maxTileHeight_def maxPixelsPerTile_def
      maxPayloadSize_def del: One_nat_def)

text \<open>
  C8. A frame that \<open>parse\<close> accepts as a 256 by 256 tile of U8 samples with
  compression None declares \<open>payloadBytes = uncompressedBytes = 65536\<close> and carries
  65536 payload bytes. A buffer whose header declares these dimensions, sample type and
  compression with \<open>uncompressedBytes = 65536\<close> and \<open>payloadBytes = 65535\<close> (plane
  and coordinates valid) is rejected with \<open>UNCOMPRESSED_SIZE_MISMATCH\<close>.
\<close>

theorem tile_256_u8_none_sizes:
  "(success (fst (parse p buffer))
      \<and> tileW (header (the (data (fst (parse p buffer))))) = 256
      \<and> tileH (header (the (data (fst (parse p buffer))))) = 256
      \<and> dtype (header (the (data (fst (parse p buffer))))) = U8
      \<and> compression (header (the (data (fst (parse p buffer))))) = None_ct
    \<longrightarrow> payloadBytes (header (the (data (fst (parse p buffer))))) = 65536
      \<and> uncompressedBytes (header (the (data (fst (parse p buffer))))) = 65536
      \<and> length (payload (the (data (fst (parse p buffer))))) = 65536)
   \<and> (getUint8 b 0 = Inr EXPECTED_MSG_TYPE
      \<and> getUint8 b 1 = Inr pv \<and> isValidPlaneType pv
      \<and> getUint16 b 2 True = Inr 256 \<and> getUint16 b 4 True = Inr 256
      \<and> getUint32 b 6 True = Inr x \<and> x \<le> maxCoordinate
      \<and> getUint32 b 10 True = Inr y \<and> y \<le> maxCoordinate
      \<and> getUint32 b 14 True = Inr sl \<and> sl \<le> maxSliceIndex
      \<and> getUint8 b 18 = Inr dv \<and> DataType_of dv = Some U8
      \<and> getUint8 b 19 = Inr cv \<and> CompressionType_of cv = Some None_ct
      \<and> getUint32 b 20 True = Inr 65536 \<and> getUint32 b 24 True = Inr 65535
    \<longrightarrow> fst (parse q b) = failure UNCOMPRESSED_SIZE_MISMATCH b)"
proof (intro conjI impI)
  assume a: "success (fst (parse p buffer))
      \<and> tileW (header (the (data (fst (parse p buffer))))) = 256
      \<and> tileH (header (the (data (fst (parse p buffer))))) = 256
      \<and> dtype (header (the (data (fst (parse p buffer))))) = U8
      \<and> compression (header (the (data (fst (parse p buffer))))) = None_ct"
  then obtain h where h: "parseHeader_try buffer = Inr (Inr h)"
    "length buffer = TILE_HEADER_SIZE + payloadBytes h"
    "data (fst (parse p buffer)) = Some \<lparr> header = h, payload = drop TILE_HEADER_SIZE buffer \<rparr>"
    using parse_accept [of p buffer] by blast
  from a h(3) have f: "tileW h = 256" "tileH h = 256" "dtype h = U8" "compression h = None_ct"
    by simp_all
  from parseHeader_try_accept [OF h(1)] f
  have u: "uncompressedBytes h = 65536" and pb: "payloadBytes h = 65536"
    by simp_all
  from h(3) u show "uncompressedBytes (header (the (data (fst (parse p buffer))))) = 65536"
    by simp
  from h(3) pb show "payloadBytes (header (the (data (fst (parse p buffer))))) = 65536"
    by simp
  from h(2,3) pb show "length (payload (the (data (fst (parse p buffer))))) = 65536"
    by simp
next
  assume "getUint8 b 0 = Inr EXPECTED_MSG_TYPE
      \<and> getUint8 b 1 = Inr pv \<and> isValidPlaneType pv
      \<and> getUint16 b 2 True = Inr 256 \<and> getUint16 b 4 True = Inr 256
      \<and> getUint32 b 6 True = Inr x \<and> x \<le> maxCoordinate
      \<and> getUint32 b 10 True = Inr y \<and> y \<le> maxCoordinate
      \<and> getUint32 b 14 True = Inr sl \<and> sl \<le> maxSliceIndex
      \<and> getUint8 b 18 = Inr dv \<and> DataType_of dv = Some U8
      \<and> getUint8 b 19 = Inr cv \<and> CompressionType_of cv = Some None_ct
      \<and> getUint32 b 20 True = Inr 65536 \<and> getUint32 b 24 True = Inr 65535"
  then have r: "parseHeader_try b = Inr (Inl UNCOMPRESSED_SIZE_MISMATCH)"
    and len: "24 + 4 \<le> length b"
    using parseHeader_declares_65535 [of b pv x y sl dv cv] getUint32_in_range [of b 24 True 65535]
    by blast+
  then show "fst (parse q b) = failure UNCOMPRESSED_SIZE_MISMATCH b"
    by (simp add: parse_eq parseHeader_def Let_def TILE_HEADER_SIZE_def)
qed

lemma reads_header_256_short:
  "getUint8 header_256_short 0 = Inr EXPECTED_MSG_TYPE" "getUint8 header_256_short 1 = Inr 0"
  "getUint16 header_256_short 2 True = Inr 256" "getUint16 header_256_short 4 True = Inr 256"
  "getUint32 header_256_short 6 True = Inr 0" "getUint32 header_256_short 10 True = Inr 0"
  "getUint32 header_256_short 14 True = Inr 0"
  "getUint8 header_256_short 18 = Inr 0" "getUint8 header_256_short 19 = Inr 0"
  "getUint32 header_256_short 20 True = Inr 65536"
  "getUint32 header_256_short 24 True = Inr 65535"
  by (simp_all add: accessor_defs header_256_short_def EXPECTED_MSG_TYPE_def)

theorem tile_256_u8_none_sizes_witness:
  "success (fst (parse new_TileFrameParser frame_256))
   \<and> tileW (header (the (data (fst (parse new_TileFrameParser frame_256))))) = 256
   \<and> tileH (header (the (data (fst (parse new_TileFrameParser frame_256))))) = 256
   \<and> dtype (header (the (data (fst (parse new_TileFrameParser frame_256))))) = U8
   \<and> compression (header (the (data (fst (parse new_TileFrameParser frame_256))))) = None_ct
   \<and> payloadBytes (header (the (data (fst (parse new_TileFrameParser frame_256))))) = 65536
   \<and> uncompressedBytes (header (the (data (fst (parse new_TileFrameParser frame_256))))) = 65536
   \<and> length (payload (the (data (fst (parse new_TileFrameParser frame_256))))) = 65536
   \<and> getUint16 header_256_short 2 True = Inr 256
   \<and> getUint16 header_256_short 4 True = Inr 256
   \<and> getUint8 header_256_short 18 = Inr 0 \<and> DataType_of 0 = Some U8
   \<and> getUint8 header_256_short 19 = Inr 0 \<and> CompressionType_of 0 = Some None_ct
   \<and> getUint32 header_256_short 20 True = Inr 65536
   \<and> getUint32 header_256_short 24 True = Inr 65535
   \<and> fst (parse new_TileFrameParser header_256_short)
       = failure UNCOMPRESSED_SIZE_MISMATCH header_256_short"
proof -
  note t = tile_256_u8_none_sizes [of new_TileFrameParser frame_256 header_256_short
      0 0 0 0 0 0 new_TileFrameParser]
  have v: "isValidPlaneType 0" "(0::nat) \<le> maxCoordinate" "(0::nat) \<le> maxSliceIndex"
    "DataType_of 0 = Some U8" "CompressionType_of 0 = Some None_ct"
    by (simp_all add: enum_defs)
  have acc: "success (fst (parse new_TileFrameParser frame_256))
   \<and> tileW (header (the (data (fst (parse new_TileFrameParser frame_256))))) = 256
   \<and> tileH (header (the (data (fst (parse new_TileFrameParser frame_256))))) = 256
   \<and> dtype (header (the (data (fst (parse new_TileFrameParser frame_256))))) = U8
   \<and> compression (header (the (data (fst (parse new_TileFrameParser frame_256))))) = None_ct"
    using parse_frame_256 [of new_TileFrameParser] by simp
  from t acc v reads_header_256_short show ?thesis
    by blast
qed

section \<open>Properties of the quality controller\<close>

lemmas threshold_defs = fps_good_def fps_fair_def fps_poor_def frameTime_good_def
  frameTime_fair_def frameTime_poor_def droppedFrames_acceptable_def
  droppedFrames_concerning_def droppedFrames_critical_def uploadLatency_good_def
  uploadLatency_fair_def uploadLatency_poor_def

lemma metrics_applyDegradation [simp]: "metrics (applyDegradation l c) = metrics c"
  by (simp add: applyDegradation_def Let_def)

lemma metrics_evaluatePerformance [simp]: "metrics (evaluatePerformance c) = metrics c"
  by (simp add: evaluatePerformance_def Let_def)

lemma getTargetDegradation_range: "0 \<le> getTargetDegradation x \<and> getTargetDegradation x \<le> 3"
  by (simp add: getTargetDegradation_def)

lemma targetOf_range: "0 \<le> targetOf c \<and> targetOf c \<le> 3"
  by (simp add: targetOf_def getTargetDegradation_range)

lemma length_qualityLevels: "int (length qualityLevels) - 1 = 3"
  by (simp add: qualityLevels_def)

lemma applyDegradation_level:
  "0 \<le> l \<Longrightarrow> l \<le> 3 \<Longrightarrow> degradationLevel (applyDegradation l c) = l"
  by (simp add: applyDegradation_def Let_def length_qualityLevels)

lemma applyDegradation_steady [simp]:
  "steadyStateFrames (applyDegradation l c) = steadyStateFrames c"
  by (simp add: applyDegradation_def Let_def)

lemma applyDegradation_3_settings:
  "q_dtype (currentSettings (applyDegradation 3 c)) = U8 \<and>
   downsample (currentSettings (applyDegradation 3 c)) = 2" if "degradationLevel c \<noteq> 3"
  using that
  by (simp add: applyDegradation_def Let_def length_qualityLevels settingsChanged_def qualityLevels_def)

lemma score_poorSample:
  "calculatePerformanceScore (metrics (updateMetrics poorSample c)) = 11 / 4"
  by (simp add: calculatePerformanceScore_def updateMetrics_def poorSample_def threshold_defs Let_def)

lemma targetOf_poorSample: "targetOf (updateMetrics poorSample c) = 3"
  by (simp add: targetOf_def score_poorSample getTargetDegradation_def)

lemma targetOf_goodSample: "targetOf (updateMetrics goodSample c) = 0"
  by (simp add: targetOf_def calculatePerformanceScore_def updateMetrics_def goodSample_def threshold_defs Let_def getTargetDegradation_def)

lemma evaluatePerformance_worse:
  assumes "targetOf c > degradationLevel c"
  shows "degradationLevel (evaluatePerformance c) = targetOf c"
    and "steadyStateFrames (evaluatePerformance c) = 0"
  using assms targetOf_range [of c]
  by (simp_all add: evaluatePerformance_def Let_def targetOf_def [symmetric] applyDegradation_level)

lemma evaluatePerformance_better:
  assumes "targetOf c < degradationLevel c"
  shows "steadyStateFrames c + 1 \<ge> threshold_steadyStateFrames \<Longrightarrow>
           degradationLevel (evaluatePerformance c) = targetOf c
           \<and> steadyStateFrames (evaluatePerformance c) = 0"
    and "steadyStateFrames c + 1 < threshold_steadyStateFrames \<Longrightarrow>
           evaluatePerformance c = c \<lparr> steadyStateFrames := steadyStateFrames c + 1 \<rparr>"
  using assms targetOf_range [of c]
  by (simp_all add: evaluatePerformance_def Let_def targetOf_def [symmetric] applyDegradation_level)

lemma evaluatePerformance_stable:
  assumes "targetOf c = degradationLevel c"
  shows "evaluatePerformance c = c \<lparr> steadyStateFrames := min (steadyStateFrames c + 1) 10 \<rparr>"
  using assms
  by (simp add: evaluatePerformance_def Let_def targetOf_def [symmetric])

subsection \<open>Degrading\<close>

lemma updateMetrics_fields [simp]:
  "degradationLevel (updateMetrics m c) = degradationLevel c"
  "steadyStateFrames (updateMetrics m c) = steadyStateFrames c"
  "currentSettings (updateMetrics m c) = currentSettings c"
  by (simp_all add: updateMetrics_def)

lemma feed_poor_level3:
  assumes "degradationLevel c = 3"
  shows "degradationLevel (feed c (replicate n poorSample)) = 3
     \<and> currentSettings (feed c (replicate n poorSample)) = currentSettings c"
  using assms
proof (induction n arbitrary: c)
  case 0
  then show ?case by simp
next
  case (Suc n)
  let ?c1 = "updateMetrics poorSample c"
  have "targetOf ?c1 = degradationLevel ?c1"
    using Suc.prems by (simp add: targetOf_poorSample)
  then have e: "evaluatePerformance ?c1 = ?c1 \<lparr> steadyStateFrames := min (steadyStateFrames ?c1 + 1) 10 \<rparr>"
    by (rule evaluatePerformance_stable)
  have "degradationLevel (evaluatePerformance ?c1) = 3"
    "currentSettings (evaluatePerformance ?c1) = currentSettings c"
    using Suc.prems by (simp_all add: e)
  with Suc.IH [of "evaluatePerformance ?c1"] show ?case
    by simp
qed

lemma first_poor_tick:
  assumes "degradationLevel c < 3"
  shows "degradationLevel (evaluatePerformance (updateMetrics poorSample c)) = 3"
    and "q_dtype (currentSettings (evaluatePerformance (updateMetrics poorSample c))) = U8"
    and "downsample (currentSettings (evaluatePerformance (updateMetrics poorSample c))) = 2"
proof -
  let ?c1 = "updateMetrics poorSample c"
  have t: "targetOf ?c1 = 3" by (rule targetOf_poorSample)
  have lt: "degradationLevel ?c1 < 3" "degradationLevel ?c1 \<noteq> 3"
    using assms by simp_all
  have e: "evaluatePerformance ?c1 = (applyDegradation 3 ?c1) \<lparr> steadyStateFrames := 0 \<rparr>"
    using t lt by (simp add: evaluatePerformance_def Let_def targetOf_def [symmetric])
  show "degradationLevel (evaluatePerformance ?c1) = 3"
    by (simp add: e applyDegradation_level)
  show "q_dtype (currentSettings (evaluatePerformance ?c1)) = U8"
    "downsample (currentSettings (evaluatePerformance ?c1)) = 2"
    using applyDegradation_3_settings [OF lt(2)] by (simp_all add: e)
qed

text \<open>
  C6. With the metrics \<open>fps = 10\<close>, \<open>avgFrameTime = 100\<close>, \<open>droppedFrames = 20\<close>,
  \<open>uploadLatency = 500\<close> (whatever the other fields hold), the four signal scores
  3, 3, 2, 3 average to 11/4, at least 2.5, and the target level is 3. A target level
  worse than the current one is applied on the same tick, with the steady-state counter
  reset. So from any level below 3, one tick or more with these metrics leave the
  controller at level 3 with the data type and downsample factor of the last, most
  degraded quality entry: U8 and 2. At level 3 further ticks with these metrics keep the
  level and the settings.
\<close>

theorem poor_metrics_drive_to_level_3:
  "calculatePerformanceScore (metrics (updateMetrics poorSample c)) = 11 / 4
   \<and> calculatePerformanceScore (metrics (updateMetrics poorSample c)) \<ge> 2.5
   \<and> getTargetDegradation (calculatePerformanceScore (metrics (updateMetrics poorSample c))) = 3
   \<and> (targetOf d > degradationLevel d \<longrightarrow>
        degradationLevel (evaluatePerformance d) = targetOf d
        \<and> steadyStateFrames (evaluatePerformance d) = 0)
   \<and> (degradationLevel c < 3 \<longrightarrow>
        degradationLevel (feed c (replicate (Suc n) poorSample)) = 3
        \<and> q_dtype (currentSettings (feed c (replicate (Suc n) poorSample)))
            = q_dtype (last qualityLevels)
        \<and> downsample (currentSettings (feed c (replicate (Suc n) poorSample)))
            = downsample (last qualityLevels)
        \<and> q_dtype (last qualityLevels) = U8 \<and> downsample (last qualityLevels) = 2)
   \<and> (degradationLevel c = 3 \<longrightarrow>
        degradationLevel (feed c (replicate n poorSample)) = 3
        \<and> currentSettings (feed c (replicate n poorSample)) = currentSettings c)"
proof -
  have run: "degradationLevel (feed c (replicate (Suc n) poorSample)) = 3
        \<and> q_dtype (currentSettings (feed c (replicate (Suc n) poorSample))) = U8
        \<and> downsample (currentSettings (feed c (replicate (Suc n) poorSample))) = 2"
    if "degradationLevel c < 3"
    using first_poor_tick [OF that]
      feed_poor_level3 [of "evaluatePerformance (updateMetrics poorSample c)" n]
    by simp
  have lastq: "q_dtype (last qualityLevels) = U8" "downsample (last qualityLevels) = 2"
    by (simp_all add: qualityLevels_def)
  have t: "getTargetDegradation (calculatePerformanceScore (metrics (updateMetrics poorSample c))) = 3"
    using targetOf_poorSample [of c] by (simp add: targetOf_def)
  show ?thesis
    using run lastq t evaluatePerformance_worse [of d] feed_poor_level3 [of c n]
    by (simp add: score_poorSample)
qed

theorem poor_metrics_drive_to_level_3_witness:
  "targetOf (updateMetrics poorSample (new_AdaptiveQualityController True))
     > degradationLevel (updateMetrics poorSample (new_AdaptiveQualityController True))
   \<and> degradationLevel (new_AdaptiveQualityController True) < 3
   \<and> degradationLevel (evaluatePerformance
        (updateMetrics poorSample (new_AdaptiveQualityController True))) = 3
   \<and> degradationLevel (feed (new_AdaptiveQualityController True) (replicate 3 poorSample)) = 3
   \<and> q_dtype (currentSettings
        (feed (new_AdaptiveQualityController True) (replicate 3 poorSample))) = U8
   \<and> downsample (currentSettings
        (feed (new_AdaptiveQualityController True) (replicate 3 poorSample))) = 2
   \<and> degradationLevel (feed (new_AdaptiveQualityController True) [poorSample]) = 3
   \<and> degradationLevel
        (feed (feed (new_AdaptiveQualityController True) [poorSample])
           (replicate 4 poorSample)) = 3"
proof -
  have a: "degradationLevel (new_AdaptiveQualityController True) < 3"
    by (simp add: new_AdaptiveQualityController_def)
  have b: "targetOf (updateMetrics poorSample (new_AdaptiveQualityController True))
     > degradationLevel (updateMetrics poorSample (new_AdaptiveQualityController True))"
    by (simp add: targetOf_poorSample new_AdaptiveQualityController_def)
  have n: "replicate 3 poorSample = replicate (Suc 2) poorSample"
    by (simp add: numeral_3_eq_3)
  have l3: "degradationLevel (feed (new_AdaptiveQualityController True) [poorSample]) = 3"
    by code_simp
  from l3
    poor_metrics_drive_to_level_3 [where c = "feed (new_AdaptiveQualityController True) [poorSample]"
      and n = 4]
  have k: "degradationLevel
        (feed (feed (new_AdaptiveQualityController True) [poorSample])
           (replicate 4 poorSample)) = 3"
    by blast
  from a b
    poor_metrics_drive_to_level_3 [of "new_AdaptiveQualityController True"
      "updateMetrics poorSample (new_AdaptiveQualityController True)" 2]
  have "targetOf (updateMetrics poorSample (new_AdaptiveQualityController True))
     > degradationLevel (updateMetrics poorSample (new_AdaptiveQualityController True))
   \<and> degradationLevel (new_AdaptiveQualityController True) < 3
   \<and> degradationLevel (evaluatePerformance
        (updateMetrics poorSample (new_AdaptiveQualityController True))) = 3
   \<and> degradationLevel (feed (new_AdaptiveQualityController True) (replicate 3 poorSample)) = 3
   \<and> q_dtype (currentSettings
        (feed (new_AdaptiveQualityController True) (replicate 3 poorSample))) = U8
   \<and> downsample (currentSettings
        (feed (new_AdaptiveQualityController True) (replicate 3 poorSample))) = 2"
    unfolding n by (simp add: targetOf_poorSample)
  with l3 k show ?thesis
    by blast
qed

subsection \<open>Upgrading\<close>

lemma threshold_60: "threshold_steadyStateFrames = 60"
  by (simp add: threshold_steadyStateFrames_def)

lemma feed_better:
  assumes "betterRun c ms" and "steadyStateFrames c + length ms < threshold_steadyStateFrames"
  shows "degradationLevel (feed c ms) = degradationLevel c
     \<and> currentSettings (feed c ms) = currentSettings c
     \<and> steadyStateFrames (feed c ms) = steadyStateFrames c + length ms"
  using assms
proof (induction ms arbitrary: c)
  case Nil
  then show ?case by simp
next
  case (Cons m ms)
  let ?c1 = "updateMetrics m c"
  from Cons.prems have b: "targetOf ?c1 < degradationLevel ?c1"
    and r: "betterRun (evaluatePerformance ?c1) ms"
    by simp_all
  from Cons.prems have "steadyStateFrames ?c1 + 1 < threshold_steadyStateFrames"
    by simp
  from evaluatePerformance_better(2) [OF b this]
  have e: "evaluatePerformance ?c1 = ?c1 \<lparr> steadyStateFrames := steadyStateFrames ?c1 + 1 \<rparr>" .
  have "steadyStateFrames (evaluatePerformance ?c1) + length ms < threshold_steadyStateFrames"
    using Cons.prems by (simp add: e)
  from Cons.IH [OF r this] show ?case
    by (simp add: e)
qed

lemma tick_after_not_better:
  assumes "\<not> targetOf c < degradationLevel c"
  shows "steadyStateFrames (evaluatePerformance c) \<le> 10"
    and "degradationLevel (evaluatePerformance (updateMetrics m (evaluatePerformance c)))
           \<ge> degradationLevel (evaluatePerformance c)"
proof -
  let ?c1 = "evaluatePerformance c"
  let ?c2 = "updateMetrics m ?c1"
  show s: "steadyStateFrames ?c1 \<le> 10"
  proof (cases "targetOf c = degradationLevel c")
    case True
    then show ?thesis by (simp add: evaluatePerformance_stable)
  next
    case False
    with assms have "targetOf c > degradationLevel c" by simp
    then show ?thesis by (simp add: evaluatePerformance_worse)
  qed
  consider "targetOf ?c2 < degradationLevel ?c2" | "targetOf ?c2 = degradationLevel ?c2"
    | "targetOf ?c2 > degradationLevel ?c2"
    by linarith
  then show "degradationLevel (evaluatePerformance ?c2) \<ge> degradationLevel ?c1"
  proof cases
    case 1
    have "steadyStateFrames ?c2 + 1 < threshold_steadyStateFrames"
      using s by (simp add: threshold_60)
    from evaluatePerformance_better(2) [OF 1 this] show ?thesis
      by simp
  next
    case 2
    then show ?thesis by (simp add: evaluatePerformance_stable)
  next
    case 3
    then show ?thesis by (simp add: evaluatePerformance_worse)
  qed
qed

text \<open>
  C5, as amended. On a tick whose target level is better (lower) than the current level,
  the steady-state counter is incremented; the level and the settings stay as they are
  unless the incremented counter has reached the threshold of 60, and then the target
  level is applied and the counter reset to 0. Over a run of ticks that all see a better
  target, nothing changes while the counter stays below 60. The counter is shared with
  the ticks at a stable level, which advance it up to 10: after a tick whose target was
  not better the counter is at most 10, and the next tick, whatever its sample, does not
  lower the level.
\<close>

theorem upgrade_hysteresis:
  "(targetOf c < degradationLevel c \<longrightarrow>
      (if steadyStateFrames c + 1 \<ge> threshold_steadyStateFrames
       then degradationLevel (evaluatePerformance c) = targetOf c
            \<and> steadyStateFrames (evaluatePerformance c) = 0
       else degradationLevel (evaluatePerformance c) = degradationLevel c
            \<and> currentSettings (evaluatePerformance c) = currentSettings c
            \<and> steadyStateFrames (evaluatePerformance c) = steadyStateFrames c + 1))
   \<and> threshold_steadyStateFrames = 60
   \<and> (betterRun c ms \<and> steadyStateFrames c + length ms < threshold_steadyStateFrames \<longrightarrow>
        degradationLevel (feed c ms) = degradationLevel c
        \<and> currentSettings (feed c ms) = currentSettings c
        \<and> steadyStateFrames (feed c ms) = steadyStateFrames c + length ms)
   \<and> (\<not> targetOf d < degradationLevel d \<longrightarrow>
        steadyStateFrames (evaluatePerformance d) \<le> 10
        \<and> degradationLevel (evaluatePerformance (updateMetrics m (evaluatePerformance d)))
            \<ge> degradationLevel (evaluatePerformance d))"
proof -
  have one: "if steadyStateFrames c + 1 \<ge> threshold_steadyStateFrames
       then degradationLevel (evaluatePerformance c) = targetOf c
            \<and> steadyStateFrames (evaluatePerformance c) = 0
       else degradationLevel (evaluatePerformance c) = degradationLevel c
            \<and> currentSettings (evaluatePerformance c) = currentSettings c
            \<and> steadyStateFrames (evaluatePerformance c) = steadyStateFrames c + 1"
    if b: "targetOf c < degradationLevel c"
  proof (cases "steadyStateFrames c + 1 \<ge> threshold_steadyStateFrames")
    case True
    with evaluatePerformance_better(1) [OF b] show ?thesis by simp
  next
    case False
    then have "steadyStateFrames c + 1 < threshold_steadyStateFrames" by simp
    from evaluatePerformance_better(2) [OF b this] False show ?thesis by simp
  qed
  show ?thesis
    using one feed_better [of c ms] tick_after_not_better(1) [of d]
      tick_after_not_better(2) [of d m] threshold_60
    by blast
qed


theorem upgrade_hysteresis_witness:
  "targetOf (updateMetrics goodSample (feed (new_AdaptiveQualityController True) [poorSample]))
     < degradationLevel
         (updateMetrics goodSample (feed (new_AdaptiveQualityController True) [poorSample]))
   \<and> degradationLevel (feed (new_AdaptiveQualityController True) [poorSample, goodSample]) = 3
   \<and> steadyStateFrames (feed (new_AdaptiveQualityController True) [poorSample, goodSample]) = 1
   \<and> betterRun (feed (new_AdaptiveQualityController True) [poorSample])
        (replicate 5 goodSample)
   \<and> degradationLevel
        (feed (feed (new_AdaptiveQualityController True) [poorSample]) (replicate 5 goodSample))
       = 3
   \<and> \<not> targetOf (updateMetrics poorSample (new_AdaptiveQualityController True))
        < degradationLevel (updateMetrics poorSample (new_AdaptiveQualityController True))
   \<and> degradationLevel (feed (new_AdaptiveQualityController True) [poorSample, goodSample])
       \<ge> degradationLevel (feed (new_AdaptiveQualityController True) [poorSample])"
proof -
  let ?new = "new_AdaptiveQualityController True"
  let ?c = "feed ?new [poorSample]"
  have lvl: "degradationLevel ?c = 3" and st: "steadyStateFrames ?c = 0"
    by code_simp+
  have h1: "targetOf (updateMetrics goodSample ?c) < degradationLevel (updateMetrics goodSample ?c)"
    by (simp add: targetOf_goodSample lvl del: feed.simps)
  have h2: "betterRun ?c (replicate 5 goodSample)"
    by code_simp
  have h2': "steadyStateFrames ?c + length (replicate 5 goodSample) < threshold_steadyStateFrames"
    by (simp add: st threshold_60 del: feed.simps)
  have h3: "\<not> targetOf (updateMetrics poorSample ?new)
        < degradationLevel (updateMetrics poorSample ?new)"
    by (simp add: targetOf_poorSample new_AdaptiveQualityController_def)
  have f: "feed ?new [poorSample, goodSample] = evaluatePerformance (updateMetrics goodSample ?c)"
    "?c = evaluatePerformance (updateMetrics poorSample ?new)"
    by simp_all
  have n: "\<not> steadyStateFrames (updateMetrics goodSample ?c) + 1 \<ge> threshold_steadyStateFrames"
    using st by (simp add: threshold_60 del: feed.simps)
  from upgrade_hysteresis [where c = "updateMetrics goodSample ?c"] h1 n
  have a: "degradationLevel (feed ?new [poorSample, goodSample]) = 3"
    "steadyStateFrames (feed ?new [poorSample, goodSample]) = 1"
    unfolding f(1) using lvl st by (simp_all del: feed.simps)
  from upgrade_hysteresis [where c = ?c and ms = "replicate 5 goodSample"] h2 h2'
  have b: "degradationLevel (feed ?c (replicate 5 goodSample)) = 3"
    using lvl by (simp del: feed.simps)
  from upgrade_hysteresis [where d = "updateMetrics poorSample ?new" and m = goodSample] h3
  have c: "degradationLevel (feed ?new [poorSample, goodSample]) \<ge> degradationLevel ?c"
    unfolding f(1) by (simp del: feed.simps add: f(2) [symmetric])
  from h1 a h2 b h3 c show ?thesis
    by blast
qed

text \<open>
  C5 as the specification states it fails: the threshold is not 60 consecutive ticks of good samples. From
  the fresh controller, eleven poor samples bring level 3 and a counter of 10; the level
  is still 3 after 49 good samples and is 0 after the 50th.
\<close>

theorem upgrade_after_50_good_ticks:
  "degradationLevel (feed (new_AdaptiveQualityController True) (replicate 11 poorSample)) = 3
   \<and> degradationLevel (feed (new_AdaptiveQualityController True)
          (replicate 11 poorSample @ replicate 49 goodSample)) = 3
   \<and> degradationLevel (feed (new_AdaptiveQualityController True)
          (replicate 11 poorSample @ replicate 50 goodSample)) = 0"
  by code_simp


section \<open>Properties of the decompression pool\<close>

subsection \<open>Identity payloads\<close>

text \<open>
  C4. The specification asks that every payload, the identity kind included, pass through the
  stat-tracked pool path and add one to \<open>totalTasks\<close>. A call of
  \<open>TileDecompressor.decompress\<close> with compression None returns the data at once and
  leaves the pool as it was: \<open>totalTasks\<close> keeps its value, nothing is posted to a
  worker and no task outcome is recorded, while a call with LZ4 adds one to
  \<open>totalTasks\<close>.
\<close>

theorem identity_payload_bypasses_pool:
  "TileDecompressor_decompress data' None_ct n now s = (Fulfilled data', s)
   \<and> totalTasks (stats (snd (TileDecompressor_decompress data' None_ct n now s)))
       = totalTasks (stats s)
   \<and> settled (snd (TileDecompressor_decompress data' None_ct n now s)) = settled s
   \<and> posted (snd (TileDecompressor_decompress data' None_ct n now s)) = posted s
   \<and> totalTasks (stats (snd (TileDecompressor_decompress data' LZ4 n now s)))
       = totalTasks (stats s) + 1"
  by (simp add: TileDecompressor_decompress_def decompress_def Let_def processNextTask_def
      updateStats_def dropOldest_def split: list.splits)

subsection \<open>Disposal\<close>

lemma dispose_idem: "dispose (dispose s) = dispose s"
  by (simp add: dispose_def)

lemma pool_3_queued_2_inflight_shape:
  "map fst (pendingTasks pool_3_queued_2_inflight) = [1, 2]
   \<and> queue_ids pool_3_queued_2_inflight = [3, 4, 5]
   \<and> settled pool_3_queued_2_inflight = []
   \<and> totalTasks (stats pool_3_queued_2_inflight) = 5
   \<and> completedTasks (stats pool_3_queued_2_inflight) = 0
   \<and> workers pool_3_queued_2_inflight = [0, 1]"
  by code_simp

lemma dispose_pool_3_queued_2_inflight:
  "settled (dispose pool_3_queued_2_inflight) =
     [(1, Rejected Disposed), (2, Rejected Disposed), (3, Rejected Disposed),
      (4, Rejected Disposed), (5, Rejected Disposed)]
   \<and> terminated (dispose pool_3_queued_2_inflight) = [0, 1]"
  by code_simp

text \<open>
  C9. \<open>dispose\<close> rejects every pending (in-flight) task and then every queued task
  with the disposal error, terminates every worker, empties the pool, and leaves the
  statistics, \<open>totalTasks\<close> and \<open>completedTasks\<close> among them, as they were; a second
  \<open>dispose\<close> changes nothing and rejects or terminates nothing more. In the pool with
  tasks 1 and 2 in flight and tasks 3, 4, 5 queued, all five are rejected.
\<close>

theorem dispose_rejects_everything:
  "settled (dispose s) =
     settled s
     @ map (\<lambda>task. (task_id task, Rejected Disposed)) (map snd (pendingTasks s))
     @ map (\<lambda>task. (task_id task, Rejected Disposed)) (taskQueue s)
   \<and> terminated (dispose s) = terminated s @ workers s
   \<and> workers (dispose s) = [] \<and> availableWorkers (dispose s) = []
   \<and> busyWorkers (dispose s) = {}
   \<and> taskQueue (dispose s) = [] \<and> pendingTasks (dispose s) = []
   \<and> stats (dispose s) = stats s
   \<and> totalTasks (stats (dispose s)) = totalTasks (stats s)
   \<and> completedTasks (stats (dispose s)) = completedTasks (stats s)
   \<and> dispose (dispose s) = dispose s
   \<and> map fst (pendingTasks pool_3_queued_2_inflight) = [1, 2]
   \<and> queue_ids pool_3_queued_2_inflight = [3, 4, 5]
   \<and> settled pool_3_queued_2_inflight = []
   \<and> settled (dispose pool_3_queued_2_inflight) =
        [(1, Rejected Disposed), (2, Rejected Disposed), (3, Rejected Disposed),
         (4, Rejected Disposed), (5, Rejected Disposed)]
   \<and> terminated (dispose pool_3_queued_2_inflight) = workers pool_3_queued_2_inflight"
proof -
  have g: "settled (dispose s) =
     settled s
     @ map (\<lambda>task. (task_id task, Rejected Disposed)) (map snd (pendingTasks s))
     @ map (\<lambda>task. (task_id task, Rejected Disposed)) (taskQueue s)
   \<and> terminated (dispose s) = terminated s @ workers s
   \<and> workers (dispose s) = [] \<and> availableWorkers (dispose s) = []
   \<and> busyWorkers (dispose s) = {}
   \<and> taskQueue (dispose s) = [] \<and> pendingTasks (dispose s) = []
   \<and> stats (dispose s) = stats s"
    by (simp add: dispose_def)
  from g dispose_idem [of s] pool_3_queued_2_inflight_shape dispose_pool_3_queued_2_inflight
  show ?thesis by simp
qed

subsection \<open>Worker faults\<close>

lemma rejectPending_busy:
  "worker \<in> busyWorkers s \<Longrightarrow>
     settled (rejectPending worker message entries s) =
       settled s @ map (\<lambda>(taskId, task). (task_id task, Rejected (WorkerError message))) entries
     \<and> busyWorkers (rejectPending worker message entries s) = busyWorkers s"
  by (induction entries arbitrary: s) auto

text \<open>A fault of a busy worker rejects every pending task, whichever worker holds it.\<close>

lemma handleWorkerError_busy:
  "worker \<in> busyWorkers s \<Longrightarrow>
     settled (handleWorkerError worker message s) =
       settled s
       @ map (\<lambda>(taskId, task). (task_id task, Rejected (WorkerError message))) (pendingTasks s)"
  by (simp add: handleWorkerError_def Let_def rejectPending_busy)

text \<open>
  C2. The specification asks that a fault of a worker reject exactly the tasks assigned to that
  worker and leave the others alone. In the pool with task 1 posted to worker 0 and
  task 2 posted to worker 1, a fault of worker 0 rejects both tasks with the worker
  error and empties \<open>pendingTasks\<close>; the response of worker 1 for task 2 then finds no
  task, so the pool ignores it, and worker 1 stays in \<open>busyWorkers\<close> and never comes
  back to \<open>availableWorkers\<close>.
\<close>

theorem worker_fault_rejects_other_workers_tasks:
  "map (\<lambda>(w, r). (w, req_id r)) (posted pool_two_busy) = [(0, 1), (1, 2)]
   \<and> map fst (pendingTasks pool_two_busy) = [1, 2]
   \<and> settled pool_two_busy = []
   \<and> settled (handleWorkerError 0 ''boom'' pool_two_busy) =
        [(1, Rejected (WorkerError ''boom'')), (2, Rejected (WorkerError ''boom''))]
   \<and> pendingTasks (handleWorkerError 0 ''boom'' pool_two_busy) = []
   \<and> handleWorkerMessage 1 response_task_2 (handleWorkerError 0 ''boom'' pool_two_busy)
       = handleWorkerError 0 ''boom'' pool_two_busy
   \<and> availableWorkers (handleWorkerError 0 ''boom'' pool_two_busy) = []
   \<and> 1 \<in> busyWorkers (handleWorkerError 0 ''boom'' pool_two_busy)"
  by code_simp

subsection \<open>Back-pressure\<close>

lemmas pool_step_defs = decompress_def dropOldest_def processNextTask_def updateStats_def
  queue_ids_def Let_def

lemma processNextTask_no_worker: "availableWorkers s = [] \<Longrightarrow> processNextTask s = s"
  by (simp add: processNextTask_def split: list.splits)

lemma submit_compressed:
  assumes "compressed x"
  shows "submit s x =
     processNextTask
       ((dropOldest s) \<lparr> nextTaskId := nextTaskId (dropOldest s) + 1,
            stats := (stats (dropOldest s))
               \<lparr> totalTasks := totalTasks (stats (dropOldest s)) + 1 \<rparr>,
            taskQueue := taskQueue (dropOldest s) @
               [\<lparr> task_id = nextTaskId (dropOldest s), task_data = fst x,
                   task_compression = fst (snd x),
                   task_uncompressedSize = fst (snd (snd x)),
                   timestamp = snd (snd (snd x)) \<rparr>] \<rparr>)"
  using assms by (cases x) (simp add: compressed_def decompress_def Let_def)

lemma submit_dispatch:
  assumes "compressed x" and "taskQueue s = []" and "availableWorkers s = w # ws"
  shows "taskQueue (submit s x) = [] \<and> availableWorkers (submit s x) = ws
    \<and> nextTaskId (submit s x) = nextTaskId s + 1
    \<and> settled (submit s x) = settled s
    \<and> droppedTasks (stats (submit s x)) = droppedTasks (stats s)
    \<and> maxQueueSize (submit s x) = maxQueueSize s"
  using assms
  by (cases x) (simp add: compressed_def pool_step_defs)

lemma submit_enqueue:
  assumes "compressed x" and "availableWorkers s = []"
    and "length (taskQueue s) < maxQueueSize s"
  shows "queue_ids (submit s x) = queue_ids s @ [nextTaskId s]
    \<and> availableWorkers (submit s x) = []
    \<and> nextTaskId (submit s x) = nextTaskId s + 1
    \<and> settled (submit s x) = settled s
    \<and> droppedTasks (stats (submit s x)) = droppedTasks (stats s)
    \<and> maxQueueSize (submit s x) = maxQueueSize s"
  using assms
  by (simp add: submit_compressed processNextTask_no_worker dropOldest_def queue_ids_def)

lemma submit_drop:
  assumes "compressed x" and "availableWorkers s = []"
    and "taskQueue s = t # q" and "length (taskQueue s) \<ge> maxQueueSize s"
  shows "queue_ids (submit s x) = map task_id q @ [nextTaskId s]
    \<and> settled (submit s x) = settled s @ [(task_id t, Rejected BackPressure)]
    \<and> droppedTasks (stats (submit s x)) = droppedTasks (stats s) + 1
    \<and> queue_ids (dropOldest s) = map task_id q
    \<and> settled (dropOldest s) = settled s @ [(task_id t, Rejected BackPressure)]"
  using assms
  by (simp add: submit_compressed processNextTask_no_worker dropOldest_def queue_ids_def)

lemma submit_all_append: "submit_all s (xs @ ys) = submit_all (submit_all s xs) ys"
  by (induction xs arbitrary: s) simp_all

lemma submit_all_dispatch:
  assumes "list_all compressed xs" and "taskQueue s = []"
    and "length xs \<le> length (availableWorkers s)"
  shows "taskQueue (submit_all s xs) = []
    \<and> availableWorkers (submit_all s xs) = drop (length xs) (availableWorkers s)
    \<and> nextTaskId (submit_all s xs) = nextTaskId s + length xs
    \<and> settled (submit_all s xs) = settled s
    \<and> droppedTasks (stats (submit_all s xs)) = droppedTasks (stats s)
    \<and> maxQueueSize (submit_all s xs) = maxQueueSize s"
  using assms
proof (induction xs arbitrary: s)
  case Nil
  then show ?case by simp
next
  case (Cons x xs)
  from Cons.prems obtain w ws where av: "availableWorkers s = w # ws"
    by (cases "availableWorkers s") auto
  from Cons.prems have cx: "compressed x" and cxs: "list_all compressed xs"
    by simp_all
  note step = submit_dispatch [OF cx Cons.prems(2) av]
  have "length xs \<le> length (availableWorkers (submit s x))"
    using Cons.prems(3) av step by simp
  from Cons.IH [OF cxs _ this] step show ?case
    by (simp add: av)
qed

lemma submit_all_enqueue:
  assumes "list_all compressed xs" and "availableWorkers s = []"
    and "length (taskQueue s) + length xs \<le> maxQueueSize s"
  shows "queue_ids (submit_all s xs) = queue_ids s @ [nextTaskId s ..< nextTaskId s + length xs]
    \<and> availableWorkers (submit_all s xs) = []
    \<and> nextTaskId (submit_all s xs) = nextTaskId s + length xs
    \<and> settled (submit_all s xs) = settled s
    \<and> droppedTasks (stats (submit_all s xs)) = droppedTasks (stats s)
    \<and> maxQueueSize (submit_all s xs) = maxQueueSize s"
  using assms
proof (induction xs arbitrary: s)
  case Nil
  then show ?case by simp
next
  case (Cons x xs)
  from Cons.prems have cx: "compressed x" and cxs: "list_all compressed xs"
    by simp_all
  from Cons.prems have lt: "length (taskQueue s) < maxQueueSize s"
    by simp
  note step = submit_enqueue [OF cx Cons.prems(2) lt]
  have len: "length (taskQueue (submit s x)) = length (taskQueue s) + 1"
    using step by (metis queue_ids_def length_map length_append_singleton Suc_eq_plus1)
  have room: "length (taskQueue (submit s x)) + length xs \<le> maxQueueSize (submit s x)"
    using Cons.prems(3) step len by simp
  have "nextTaskId s < nextTaskId s + length (x # xs)"
    by simp
  from upt_conv_Cons [OF this]
  have u: "[nextTaskId s ..< nextTaskId s + length (x # xs)]
      = nextTaskId s # [Suc (nextTaskId s) ..< nextTaskId s + length (x # xs)]" .
  from Cons.IH [OF cxs _ room] step show ?case
    unfolding u by (simp del: upt_Suc)
qed

text \<open>
  C1, as amended. A submission is dispatched at once while a worker is idle, so the queue
  only grows once no worker is idle. From a pool with an empty queue and capacity
  \<open>maxQueueSize\<close> at least 1, submitting tasks of a compressed kind, with no completion
  in between, as many as there are idle workers plus \<open>maxQueueSize + 1\<close>, drops
  exactly one task: the oldest queued one, the first submitted after the idle workers
  were used up. Before the last submission nothing is dropped and the queue is full; the
  back-pressure block of the last call rejects the oldest task with the back-pressure
  error, while the new task (the next id) is not yet in the queue; then the new task is
  enqueued last, and \<open>droppedTasks\<close> has grown by exactly one.
\<close>

theorem backpressure_drops_oldest:
  assumes q: "taskQueue s = []" and m1: "1 \<le> maxQueueSize s"
    and c: "list_all compressed xs"
    and len: "length xs = length (availableWorkers s) + maxQueueSize s + 1"
  shows "droppedTasks (stats (submit_all s xs)) = droppedTasks (stats s) + 1
    \<and> settled (submit_all s xs) =
        settled s @ [(nextTaskId s + length (availableWorkers s), Rejected BackPressure)]
    \<and> queue_ids (submit_all s xs) =
        [nextTaskId s + length (availableWorkers s) + 1
         ..< nextTaskId s + length (availableWorkers s) + maxQueueSize s + 1]
    \<and> settled (submit_all s (butlast xs)) = settled s
    \<and> droppedTasks (stats (submit_all s (butlast xs))) = droppedTasks (stats s)
    \<and> queue_ids (submit_all s (butlast xs)) =
        [nextTaskId s + length (availableWorkers s)
         ..< nextTaskId s + length (availableWorkers s) + maxQueueSize s]
    \<and> nextTaskId (submit_all s (butlast xs)) =
        nextTaskId s + length (availableWorkers s) + maxQueueSize s
    \<and> settled (dropOldest (submit_all s (butlast xs))) =
        settled s @ [(nextTaskId s + length (availableWorkers s), Rejected BackPressure)]
    \<and> queue_ids (dropOldest (submit_all s (butlast xs))) =
        [nextTaskId s + length (availableWorkers s) + 1
         ..< nextTaskId s + length (availableWorkers s) + maxQueueSize s]"
proof -
  define a where "a = length (availableWorkers s)"
  define m where "m = maxQueueSize s"
  define n where "n = nextTaskId s"
  define xs1 where "xs1 = take a xs"
  define xs2 where "xs2 = butlast (drop a xs)"
  define z where "z = last (drop a xs)"
  have rest: "drop a xs \<noteq> []" using len by (simp add: a_def)
  have "drop a xs = xs2 @ [z]"
    unfolding xs2_def z_def using append_butlast_last_id [OF rest] by simp
  then have "xs = xs1 @ xs2 @ [z]"
    by (metis append_take_drop_id xs1_def)
  then have split: "xs = (xs1 @ xs2) @ [z]"
    by simp
  have bl: "butlast xs = xs1 @ xs2"
    by (subst split) (simp only: butlast_snoc)
  have l1: "length xs1 = a" and l2: "length xs2 = m"
    using len by (simp_all add: xs1_def xs2_def a_def m_def)
  have c1: "list_all compressed xs1" and c2: "list_all compressed xs2" and cz: "compressed z"
    using c by (subst (asm) split, simp)+
  define s1 where "s1 = submit_all s xs1"
  define s2 where "s2 = submit_all s1 xs2"
  have d: "taskQueue s1 = [] \<and> availableWorkers s1 = []
      \<and> nextTaskId s1 = n + a \<and> settled s1 = settled s
      \<and> droppedTasks (stats s1) = droppedTasks (stats s) \<and> maxQueueSize s1 = m"
    using submit_all_dispatch [OF c1 q, unfolded l1] 
    by (simp add: s1_def a_def m_def n_def)
  then have room: "length (taskQueue s1) + length xs2 \<le> maxQueueSize s1"
    by (simp add: l2)
  have e: "queue_ids s2 = [n + a ..< n + a + m] \<and> availableWorkers s2 = []
      \<and> nextTaskId s2 = n + a + m \<and> settled s2 = settled s
      \<and> droppedTasks (stats s2) = droppedTasks (stats s) \<and> maxQueueSize s2 = m"
    using submit_all_enqueue [OF c2 _ room] d
    by (simp add: s2_def l2 queue_ids_def)
  have s2_butlast: "submit_all s (butlast xs) = s2"
    by (simp add: bl submit_all_append s1_def s2_def)
  have s3: "submit_all s xs = submit s2 z"
    by (subst split) (simp add: submit_all_append s1_def s2_def)
  have ids: "[n + a ..< n + a + m] = (n + a) # [n + a + 1 ..< n + a + m]"
    using m1 by (simp add: upt_conv_Cons m_def)
  from e ids obtain t q' where tq: "taskQueue s2 = t # q'" "task_id t = n + a"
    "map task_id q' = [n + a + 1 ..< n + a + m]"
    by (auto simp: queue_ids_def map_eq_Cons_conv)
  have full: "length (taskQueue s2) \<ge> maxQueueSize s2"
    using e by (metis queue_ids_def length_map length_upt diff_add_inverse order_refl)
  note drop = submit_drop [OF cz _ tq(1) full]
  have last_ids: "[n + a + 1 ..< n + a + m] @ [n + a + m] = [n + a + 1 ..< n + a + m + 1]"
    using m1 by (simp add: m_def)
  show ?thesis
    unfolding s2_butlast s3 a_def [symmetric] m_def [symmetric] n_def [symmetric]
    using drop e tq last_ids by simp
qed


theorem backpressure_drops_oldest_witness:
  "taskQueue (default_DecompressionPool (Some 8)) = []
   \<and> 1 \<le> maxQueueSize (default_DecompressionPool (Some 8))
   \<and> list_all compressed (replicate 55 lz4_task)
   \<and> length (replicate 55 lz4_task)
       = length (availableWorkers (default_DecompressionPool (Some 8)))
         + maxQueueSize (default_DecompressionPool (Some 8)) + 1
   \<and> droppedTasks (stats (submit_all (default_DecompressionPool (Some 8))
          (replicate 55 lz4_task))) = 1
   \<and> settled (submit_all (default_DecompressionPool (Some 8)) (replicate 55 lz4_task))
       = [(5, Rejected BackPressure)]
   \<and> queue_ids (submit_all (default_DecompressionPool (Some 8)) (replicate 55 lz4_task))
       = [6 ..< 56]
   \<and> queue_ids (dropOldest (submit_all (default_DecompressionPool (Some 8))
          (butlast (replicate 55 lz4_task)))) = [6 ..< 55]"
proof -
  let ?P = "default_DecompressionPool (Some 8)"
  let ?X = "replicate 55 lz4_task"
  have h1: "taskQueue ?P = []" by code_simp
  have h2: "1 \<le> maxQueueSize ?P" by code_simp
  have h3: "list_all compressed ?X" by code_simp
  have v: "nextTaskId ?P = 1" "length (availableWorkers ?P) = 4" "maxQueueSize ?P = 50"
    "settled ?P = []" "droppedTasks (stats ?P) = 0"
    by code_simp+
  have h4: "length ?X = length (availableWorkers ?P) + maxQueueSize ?P + 1"
    by (simp add: v)
  from backpressure_drops_oldest [OF h1 h2 h3 h4] h1 h2 h3 h4 show ?thesis
    by (simp only: v) simp
qed

text \<open>
  C1 as the specification states it fails: the default pool (4 workers, capacity 50) takes 51 submissions of
  a compressed kind with no drop: four are dispatched and 47 queued.
\<close>

theorem no_drop_after_maxQueueSize_plus_one:
  "maxQueueSize (default_DecompressionPool (Some 8)) = 50
   \<and> compressed lz4_task
   \<and> droppedTasks (stats (submit_all (default_DecompressionPool (Some 8))
          (replicate 51 lz4_task))) = 0
   \<and> settled (submit_all (default_DecompressionPool (Some 8)) (replicate 51 lz4_task)) = []
   \<and> length (taskQueue (submit_all (default_DecompressionPool (Some 8))
          (replicate 51 lz4_task))) = 47"
  by code_simp


end
